theory Spec2Isabelle
  imports Complex_Main
begin

section \<open>JavaScript numbers\<close>

text \<open>
  The program is TypeScript; every quantity, price and timestamp is a JavaScript
  \<^verbatim>\<open>number\<close>. The model keeps the special values of that type, because the code
  tests for them (\<^verbatim>\<open>Number.isFinite\<close>) and produces them (a division by zero gives
  an infinity or \<^verbatim>\<open>NaN\<close>, it does not raise). A finite number is idealised as a real:
  rounding, overflow and the sign of zero are not modelled. The operations below follow
  the arithmetic of ECMAScript on these four kinds of value.
\<close>

datatype jsnum = NaN | NegInf | Fin real | PosInf

fun js_neg :: "jsnum \<Rightarrow> jsnum" where
  "js_neg NaN = NaN"
| "js_neg NegInf = PosInf"
| "js_neg (Fin a) = Fin (- a)"
| "js_neg PosInf = NegInf"

fun js_add :: "jsnum \<Rightarrow> jsnum \<Rightarrow> jsnum" where
  "js_add NaN y = NaN"
| "js_add NegInf NaN = NaN"
| "js_add NegInf NegInf = NegInf"
| "js_add NegInf (Fin b) = NegInf"
| "js_add NegInf PosInf = NaN"
| "js_add (Fin a) NaN = NaN"
| "js_add (Fin a) NegInf = NegInf"
| "js_add (Fin a) (Fin b) = Fin (a + b)"
| "js_add (Fin a) PosInf = PosInf"
| "js_add PosInf NaN = NaN"
| "js_add PosInf NegInf = NaN"
| "js_add PosInf (Fin b) = PosInf"
| "js_add PosInf PosInf = PosInf"

definition js_sub :: "jsnum \<Rightarrow> jsnum \<Rightarrow> jsnum" where
  "js_sub x y = js_add x (js_neg y)"

text \<open>The sign of a number that is not \<^verbatim>\<open>NaN\<close>, and the infinity of a given sign
  (\<^verbatim>\<open>NaN\<close> for the sign 0, as in \<^verbatim>\<open>0 * Infinity\<close> and \<^verbatim>\<open>0 / 0\<close>).\<close>

fun js_sign :: "jsnum \<Rightarrow> real" where
  "js_sign NaN = 0"
| "js_sign NegInf = - 1"
| "js_sign (Fin a) = sgn a"
| "js_sign PosInf = 1"

definition inf_of_sign :: "real \<Rightarrow> jsnum" where
  "inf_of_sign s = (if 0 < s then PosInf else if s < 0 then NegInf else NaN)"

fun js_mul :: "jsnum \<Rightarrow> jsnum \<Rightarrow> jsnum" where
  "js_mul NaN y = NaN"
| "js_mul NegInf NaN = NaN"
| "js_mul (Fin a) NaN = NaN"
| "js_mul PosInf NaN = NaN"
| "js_mul (Fin a) (Fin b) = Fin (a * b)"
| "js_mul x y = inf_of_sign (js_sign x * js_sign y)"

text \<open>Division: a finite number divided by zero is an infinity of the sign of the
  numerator, and \<^verbatim>\<open>0 / 0\<close> is \<^verbatim>\<open>NaN\<close>; the zero divisor counts as positive.\<close>

fun js_div :: "jsnum \<Rightarrow> jsnum \<Rightarrow> jsnum" where
  "js_div NaN y = NaN"
| "js_div NegInf NaN = NaN"
| "js_div (Fin a) NaN = NaN"
| "js_div PosInf NaN = NaN"
| "js_div (Fin a) (Fin b) = (if b = 0 then inf_of_sign (sgn a) else Fin (a / b))"
| "js_div (Fin a) NegInf = Fin 0"
| "js_div (Fin a) PosInf = Fin 0"
| "js_div NegInf (Fin b) = (if b < 0 then PosInf else NegInf)"
| "js_div PosInf (Fin b) = (if b < 0 then NegInf else PosInf)"
| "js_div NegInf NegInf = NaN"
| "js_div NegInf PosInf = NaN"
| "js_div PosInf NegInf = NaN"
| "js_div PosInf PosInf = NaN"

text \<open>Comparisons: every comparison with \<^verbatim>\<open>NaN\<close> is false, also \<^verbatim>\<open>===\<close>.\<close>

fun js_lt :: "jsnum \<Rightarrow> jsnum \<Rightarrow> bool" where
  "js_lt (Fin a) (Fin b) = (a < b)"
| "js_lt NegInf (Fin b) = True"
| "js_lt NegInf PosInf = True"
| "js_lt (Fin a) PosInf = True"
| "js_lt x y = False"

definition js_eq :: "jsnum \<Rightarrow> jsnum \<Rightarrow> bool" where
  "js_eq x y = (x \<noteq> NaN \<and> x = y)"

definition js_le :: "jsnum \<Rightarrow> jsnum \<Rightarrow> bool" where
  "js_le x y = (js_lt x y \<or> js_eq x y)"

definition js_gt :: "jsnum \<Rightarrow> jsnum \<Rightarrow> bool" where
  "js_gt x y = js_lt y x"

definition js_ge :: "jsnum \<Rightarrow> jsnum \<Rightarrow> bool" where
  "js_ge x y = js_le y x"

text \<open>\<^verbatim>\<open>Math.max\<close>, \<^verbatim>\<open>Math.min\<close>: \<^verbatim>\<open>NaN\<close> if an argument is \<^verbatim>\<open>NaN\<close>.\<close>

definition Math_max :: "jsnum \<Rightarrow> jsnum \<Rightarrow> jsnum" where
  "Math_max x y = (if x = NaN \<or> y = NaN then NaN else if js_lt x y then y else x)"

definition Math_min :: "jsnum \<Rightarrow> jsnum \<Rightarrow> jsnum" where
  "Math_min x y = (if x = NaN \<or> y = NaN then NaN else if js_lt y x then y else x)"

text \<open>\<^verbatim>\<open>Math.floor\<close>, \<^verbatim>\<open>Math.ceil\<close>, \<^verbatim>\<open>Math.round\<close> (halves go up), \<^verbatim>\<open>Math.sqrt\<close>,
  \<^verbatim>\<open>Number.isFinite\<close>.\<close>

fun Math_floor :: "jsnum \<Rightarrow> jsnum" where
  "Math_floor (Fin a) = Fin (of_int \<lfloor>a\<rfloor>)"
| "Math_floor x = x"

fun Math_ceil :: "jsnum \<Rightarrow> jsnum" where
  "Math_ceil (Fin a) = Fin (of_int \<lceil>a\<rceil>)"
| "Math_ceil x = x"

fun Math_round :: "jsnum \<Rightarrow> jsnum" where
  "Math_round (Fin a) = Fin (of_int \<lfloor>a + 1 / 2\<rfloor>)"
| "Math_round x = x"

fun Math_sqrt :: "jsnum \<Rightarrow> jsnum" where
  "Math_sqrt NaN = NaN"
| "Math_sqrt NegInf = NaN"
| "Math_sqrt (Fin a) = (if a < 0 then NaN else Fin (sqrt a))"
| "Math_sqrt PosInf = PosInf"

fun Number_isFinite :: "jsnum \<Rightarrow> bool" where
  "Number_isFinite (Fin a) = True"
| "Number_isFinite x = False"

section \<open>Orders and positions (strategy/entry.ts)\<close>

datatype Side = Buy | Sell

record Position =
  symbol :: string
  qty :: jsnum
  avg :: jsnum
  openTs :: jsnum
  high :: jsnum

record Order =
  side :: Side
  symbol :: string
  qty :: jsnum
  ts :: jsnum
  px :: jsnum
  stopPx :: "jsnum option"
  notional :: "jsnum option"

section \<open>Exit policy (strategy/exit.ts)\<close>

record ExitDecision =
  reason :: string
  px :: jsnum

text \<open>
  \<^verbatim>\<open>updateExit\<close> writes \<^verbatim>\<open>pos.high\<close> and returns a decision or \<^verbatim>\<open>null\<close>; the
  model returns the position as the call leaves it, and the decision.
\<close>

definition updateExit :: "Position \<Rightarrow> jsnum \<Rightarrow> jsnum \<Rightarrow> Position \<times> ExitDecision option" where
  "updateExit pos0 lastPx now =
     (let pos = pos0\<lparr>Position.high := Math_max (Position.high pos0) lastPx\<rparr>;
          trail = Fin 0.12;
          timeStopMin = Fin 30;
          gain = js_sub (js_div lastPx (Position.avg pos)) (Fin 1);
          drawdownFromHigh = js_sub (js_div lastPx (Position.high pos)) (Fin 1);
          timePassedMin = js_div (js_sub now (Position.openTs pos)) (Fin 60000)
      in if js_le drawdownFromHigh (js_neg trail)
           then (pos, Some \<lparr>ExitDecision.reason = ''trail'', ExitDecision.px = lastPx\<rparr>)
         else if js_ge gain (Fin 0.5)
           then (pos, Some \<lparr>ExitDecision.reason = ''target50'', ExitDecision.px = lastPx\<rparr>)
         else if js_ge timePassedMin timeStopMin \<and> js_lt gain (Fin 0.03)
           then (pos, Some \<lparr>ExitDecision.reason = ''time'', ExitDecision.px = lastPx\<rparr>)
         else (pos, None))"

text \<open>
  The three exit rules in the words of the specification: the price has fallen at least
  12% from the session high (the high after the update), the unrealized gain from the
  average cost is at least 50%, at least 30 minutes have passed since the position was
  opened and the gain is below 3%.
\<close>

definition trail_stop_hit :: "Position \<Rightarrow> jsnum \<Rightarrow> bool" where
  "trail_stop_hit pos lastPx =
     js_le (js_sub (js_div lastPx (Math_max (Position.high pos) lastPx)) (Fin 1))
           (Fin (- 0.12))"

definition profit_target_hit :: "Position \<Rightarrow> jsnum \<Rightarrow> bool" where
  "profit_target_hit pos lastPx =
     js_ge (js_sub (js_div lastPx (Position.avg pos)) (Fin 1)) (Fin 0.5)"

definition time_stop_hit :: "Position \<Rightarrow> jsnum \<Rightarrow> jsnum \<Rightarrow> bool" where
  "time_stop_hit pos lastPx now =
     (js_ge (js_div (js_sub now (Position.openTs pos)) (Fin 60000)) (Fin 30) \<and>
      js_lt (js_sub (js_div lastPx (Position.avg pos)) (Fin 1)) (Fin 0.03))"

section \<open>Position sizing (strategy/entry.ts, \<^verbatim>\<open>simulateEntry\<close>)\<close>

text \<open>
  The tunables of \<^verbatim>\<open>simulateEntry\<close> and its local values, each under the name it has in
  the source. \<^verbatim>\<open>riskPct\<close> and \<^verbatim>\<open>equity\<close> are optional parameters with the defaults
  0.01 and 10000: \<open>None\<close> is the omitted argument.
\<close>

definition MIN_NOTIONAL :: jsnum where "MIN_NOTIONAL = Fin 50"
definition MAX_NOTIONAL :: jsnum where "MAX_NOTIONAL = Fin 5000"
definition MIN_PRICE :: jsnum where "MIN_PRICE = Fin 0.5"
definition LOT_SIZE :: jsnum where "LOT_SIZE = Fin 1"
definition TICK :: jsnum where "TICK = Fin 0.01"

definition SLIPPAGE :: "jsnum \<Rightarrow> jsnum" where
  "SLIPPAGE px0 = Math_max (Fin 0.01) (js_mul px0 (Fin 0.0005))"

definition cleanPx :: "jsnum \<Rightarrow> jsnum" where
  "cleanPx px0 = Math_max MIN_PRICE (js_mul (Math_round (js_div px0 TICK)) TICK)"

definition riskBudget :: "jsnum option \<Rightarrow> jsnum option \<Rightarrow> jsnum" where
  "riskBudget riskPct equity =
     js_mul (case equity of None \<Rightarrow> Fin 10000 | Some e \<Rightarrow> e)
            (case riskPct of None \<Rightarrow> Fin 0.01 | Some r \<Rightarrow> r)"

definition stopPx_of :: "jsnum \<Rightarrow> jsnum" where
  "stopPx_of px0 = Math_max (js_mul (cleanPx px0) (Fin 0.92)) (js_sub (cleanPx px0) (Fin 0.5))"

definition perShareRisk :: "jsnum \<Rightarrow> jsnum" where
  "perShareRisk px0 = Math_max (js_sub (cleanPx px0) (stopPx_of px0)) (Fin 0.01)"

definition rawQty :: "jsnum \<Rightarrow> jsnum option \<Rightarrow> jsnum option \<Rightarrow> jsnum" where
  "rawQty px0 riskPct equity = Math_floor (js_div (riskBudget riskPct equity) (perShareRisk px0))"

definition maxQtyByNotional :: "jsnum \<Rightarrow> jsnum" where
  "maxQtyByNotional px0 = Math_floor (js_div MAX_NOTIONAL (cleanPx px0))"

text \<open>The quantity after the three adjustments of the source: the cap, the lot size, the
  minimum notional.\<close>

definition sizedQty :: "jsnum \<Rightarrow> jsnum option \<Rightarrow> jsnum option \<Rightarrow> jsnum" where
  "sizedQty px0 riskPct equity =
     (let qty1 = Math_max (Fin 0) (Math_min (rawQty px0 riskPct equity) (maxQtyByNotional px0));
          qty2 = (if js_gt qty1 (Fin 0) \<and> js_lt qty1 LOT_SIZE then LOT_SIZE else qty1)
      in if js_gt qty2 (Fin 0) \<and> js_lt (js_mul qty2 (cleanPx px0)) MIN_NOTIONAL
           then Math_min (Math_ceil (js_div MIN_NOTIONAL (cleanPx px0))) (maxQtyByNotional px0)
         else qty2)"

definition simulateEntry ::
  "string \<Rightarrow> jsnum \<Rightarrow> jsnum \<Rightarrow> jsnum option \<Rightarrow> jsnum option \<Rightarrow> Order" where
  "simulateEntry symb px0 now riskPct equity =
     (let qty0 = sizedQty px0 riskPct equity
      in if js_le qty0 (Fin 0)
           then \<lparr>Order.side = Buy, Order.symbol = symb, Order.qty = Fin 0, Order.ts = now,
                 Order.px = cleanPx px0, Order.stopPx = None, Order.notional = None\<rparr>
         else
           (let entryPx = js_add (cleanPx px0) (SLIPPAGE px0);
                notional0 = js_mul qty0 entryPx
            in \<lparr>Order.side = Buy, Order.symbol = symb, Order.qty = qty0, Order.ts = now,
                 Order.px = entryPx, Order.stopPx = Some (stopPx_of px0),
                 Order.notional = Some notional0\<rparr>))"

section \<open>The ledger (sim/simulator.ts)\<close>

record SimFill =
  ts :: jsnum
  symbol :: string
  side :: Side
  px :: jsnum
  qty :: jsnum
  reason :: "string option"

text \<open>
  The fields of the class \<^verbatim>\<open>Simulator\<close>. \<^verbatim>\<open>positions\<close> is an object without
  prototype (\<^verbatim>\<open>Object.create(null)\<close>) used as a dictionary: a map from symbols to
  positions.
\<close>

record Simulator =
  fills :: "SimFill list"
  cash :: jsnum
  positions :: "string \<rightharpoonup> Position"
  realizedPnl :: jsnum

text \<open>The constructor, with its default starting cash, and \<^verbatim>\<open>reset\<close>, which sets the
  cash only when it is given a number.\<close>

definition new_Simulator :: "jsnum option \<Rightarrow> Simulator" where
  "new_Simulator startingCash =
     \<lparr>fills = [], cash = (case startingCash of None \<Rightarrow> Fin 100000 | Some c \<Rightarrow> c),
      positions = Map.empty, realizedPnl = Fin 0\<rparr>"

definition reset :: "jsnum option \<Rightarrow> Simulator \<Rightarrow> Simulator" where
  "reset startingCash s =
     \<lparr>fills = [], cash = (case startingCash of None \<Rightarrow> cash s | Some c \<Rightarrow> c),
      positions = Map.empty, realizedPnl = Fin 0\<rparr>"

text \<open>
  \<^verbatim>\<open>fill\<close>. The order is an object, so the test \<^verbatim>\<open>!o\<close> of the guard is false. The
  fill record is pushed right after the guard, before the side of the order is looked at.
  Where the source mutates the position object held in the dictionary, the model stores
  the updated position under the same key.
\<close>

definition fill :: "Order \<Rightarrow> Simulator \<Rightarrow> Simulator" where
  "fill ord s =
     (if js_le (Order.qty ord) (Fin 0) \<or> \<not> Number_isFinite (Order.px ord) then s
      else
        (let s1 = s\<lparr>fills := fills s @
                    [\<lparr>SimFill.ts = Order.ts ord, SimFill.symbol = Order.symbol ord,
                      SimFill.side = Order.side ord, SimFill.px = Order.px ord,
                      SimFill.qty = Order.qty ord, SimFill.reason = None\<rparr>]\<rparr>
         in if Order.side ord = Buy then
              (let s2 = s1\<lparr>cash := js_sub (cash s1) (js_mul (Order.px ord) (Order.qty ord))\<rparr>
               in case positions s2 (Order.symbol ord) of
                    None \<Rightarrow>
                      s2\<lparr>positions := (positions s2)(Order.symbol ord \<mapsto>
                            \<lparr>Position.symbol = Order.symbol ord, Position.qty = Order.qty ord,
                             Position.avg = Order.px ord, Position.openTs = Order.ts ord,
                             Position.high = Order.px ord\<rparr>)\<rparr>
                  | Some p \<Rightarrow>
                      (let newQty = js_add (Position.qty p) (Order.qty ord);
                           p1 = p\<lparr>Position.avg :=
                                    js_div (js_add (js_mul (Position.avg p) (Position.qty p))
                                                   (js_mul (Order.px ord) (Order.qty ord)))
                                           newQty\<rparr>;
                           p2 = p1\<lparr>Position.qty := newQty\<rparr>;
                           p3 = p2\<lparr>Position.high := Math_max (Position.high p2) (Order.px ord)\<rparr>
                       in s2\<lparr>positions := (positions s2)(Order.symbol ord \<mapsto> p3)\<rparr>))
            else
              (case positions s1 (Order.symbol ord) of
                 None \<Rightarrow> s1
               | Some pos \<Rightarrow>
                   (let qtyToSell = Math_min (Order.qty ord) (Position.qty pos)
                    in if js_le qtyToSell (Fin 0) then s1
                       else
                         (let s2 = s1\<lparr>cash := js_add (cash s1) (js_mul (Order.px ord) qtyToSell)\<rparr>;
                              s3 = s2\<lparr>realizedPnl := js_add (realizedPnl s2)
                                      (js_mul (js_sub (Order.px ord) (Position.avg pos)) qtyToSell)\<rparr>;
                              pos1 = pos\<lparr>Position.qty := js_sub (Position.qty pos) qtyToSell\<rparr>
                          in if js_eq (Position.qty pos1) (Fin 0)
                               then s3\<lparr>positions := (positions s3)(Order.symbol ord := None)\<rparr>
                             else s3\<lparr>positions := (positions s3)(Order.symbol ord \<mapsto>
                                    pos1\<lparr>Position.high :=
                                           Math_max (Position.high pos1) (Order.px ord)\<rparr>)\<rparr>)))))"

text \<open>
  \<^verbatim>\<open>tryExit\<close>. \<^verbatim>\<open>updateExit\<close> has already raised the high watermark of the position
  object in the dictionary when it returns \<^verbatim>\<open>null\<close>, so that write is kept.
\<close>

definition tryExit :: "string \<Rightarrow> jsnum \<Rightarrow> jsnum \<Rightarrow> Simulator \<Rightarrow> Simulator" where
  "tryExit symb lastPx now s =
     (case positions s symb of
        None \<Rightarrow> s
      | Some p0 \<Rightarrow>
          (let (p, decision) = updateExit p0 lastPx now;
               s1 = s\<lparr>positions := (positions s)(symb \<mapsto> p)\<rparr>
           in case decision of
                None \<Rightarrow> s1
              | Some d \<Rightarrow>
                  (let qty0 = Position.qty p;
                       sellPx = ExitDecision.px d;
                       s2 = s1\<lparr>fills := fills s1 @
                              [\<lparr>SimFill.ts = now, SimFill.symbol = symb, SimFill.side = Sell,
                                SimFill.px = sellPx, SimFill.qty = qty0,
                                SimFill.reason = Some (ExitDecision.reason d)\<rparr>]\<rparr>;
                       s3 = s2\<lparr>cash := js_add (cash s2) (js_mul sellPx qty0)\<rparr>;
                       s4 = s3\<lparr>realizedPnl := js_add (realizedPnl s3)
                                (js_mul (js_sub sellPx (Position.avg p)) qty0)\<rparr>
                   in s4\<lparr>positions := (positions s4)(symb := None)\<rparr>)))"

text \<open>
  Sequences of ledger operations, and the quantity the ledger holds of a symbol: the
  quantity of its open position, zero when it has none.
\<close>

datatype LedgerOp = OpFill Order | OpTryExit string jsnum jsnum

fun apply_op :: "LedgerOp \<Rightarrow> Simulator \<Rightarrow> Simulator" where
  "apply_op (OpFill ord) s = fill ord s"
| "apply_op (OpTryExit symb lastPx now) s = tryExit symb lastPx now s"

fun run_ops :: "LedgerOp list \<Rightarrow> Simulator \<Rightarrow> Simulator" where
  "run_ops [] s = s"
| "run_ops (x # xs) s = run_ops xs (apply_op x s)"

fun finite_qty_op :: "LedgerOp \<Rightarrow> bool" where
  "finite_qty_op (OpFill ord) = Number_isFinite (Order.qty ord)"
| "finite_qty_op (OpTryExit symb lastPx now) = True"

definition held_qty :: "Simulator \<Rightarrow> string \<Rightarrow> jsnum" where
  "held_qty s symb = (case positions s symb of None \<Rightarrow> Fin 0 | Some p \<Rightarrow> Position.qty p)"

definition positions_positive :: "Simulator \<Rightarrow> bool" where
  "positions_positive s =
     (\<forall>symb p. positions s symb = Some p \<longrightarrow> js_lt (Fin 0) (Position.qty p))"

section \<open>Rolling statistics and the confirmation gate (pipeline/priceConfirm.ts)\<close>

text \<open>The class \<^verbatim>\<open>RollingWindow\<close>: its two private fields and its four methods.
  \<^verbatim>\<open>reduce\<close> folds from the left, starting at 0.\<close>

record RollingWindow =
  window_values :: "jsnum list"
  capacity :: jsnum

definition new_RollingWindow :: "jsnum \<Rightarrow> RollingWindow" where
  "new_RollingWindow cap = \<lparr>window_values = [], capacity = cap\<rparr>"

definition RollingWindow_push :: "jsnum \<Rightarrow> RollingWindow \<Rightarrow> RollingWindow" where
  "RollingWindow_push x w =
     (let vs = window_values w @ [x]
      in if js_gt (Fin (real (length vs))) (capacity w) then w\<lparr>window_values := tl vs\<rparr>
         else w\<lparr>window_values := vs\<rparr>)"

definition RollingWindow_last :: "RollingWindow \<Rightarrow> jsnum option" where
  "RollingWindow_last w =
     (if window_values w \<noteq> [] then Some (last (window_values w)) else None)"

definition RollingWindow_mean :: "RollingWindow \<Rightarrow> jsnum" where
  "RollingWindow_mean w =
     (if window_values w = [] then Fin 0
      else js_div (foldl js_add (Fin 0) (window_values w))
                  (Fin (real (length (window_values w)))))"

definition RollingWindow_std :: "RollingWindow \<Rightarrow> jsnum" where
  "RollingWindow_std w =
     (let n = length (window_values w)
      in if n \<le> 1 then Fin 0
         else
           (let m = RollingWindow_mean w;
                variance =
                  js_div (foldl (\<lambda>acc v. js_add acc (js_mul (js_sub v m) (js_sub v m)))
                                (Fin 0) (window_values w))
                         (js_sub (Fin (real n)) (Fin 1))
            in Math_sqrt variance))"

record VwapAccumulator =
  priceVolume :: jsnum
  volume :: jsnum

text \<open>
  The three module-level dictionaries of per-symbol state, as maps from the symbols the
  code has stored to their entries. The dictionaries are plain objects, so a name that
  every object inherits (\<^verbatim>\<open>constructor\<close>, \<^verbatim>\<open>toString\<close>) would be found in them too;
  such names are not ticker symbols and the maps leave them out.
  \<^verbatim>\<open>WINDOW_SIZE\<close> is read from the environment when the module loads, the thresholds
  \<^verbatim>\<open>cfg\<close> come from the configuration module, which is not among the sources, and
  \<^verbatim>\<open>Date.now()\<close> from the clock: the three are parameters.
\<close>

record MarketState =
  volumeWindows :: "string \<rightharpoonup> RollingWindow"
  vwapAccumulators :: "string \<rightharpoonup> VwapAccumulator"
  referencePrices :: "string \<rightharpoonup> jsnum"

definition empty_MarketState :: MarketState where
  "empty_MarketState =
     \<lparr>volumeWindows = Map.empty, vwapAccumulators = Map.empty, referencePrices = Map.empty\<rparr>"

record Cfg =
  VOL_Z_MIN :: jsnum
  RET_1M_MIN :: jsnum
  VWAP_DEV_MIN :: jsnum

definition onAgg :: "jsnum \<Rightarrow> string \<Rightarrow> jsnum \<Rightarrow> jsnum \<Rightarrow> MarketState \<Rightarrow> MarketState" where
  "onAgg WINDOW_SIZE symb close vol st =
     (let win = (case volumeWindows st symb of
                   None \<Rightarrow> new_RollingWindow WINDOW_SIZE | Some w \<Rightarrow> w);
          st1 = st\<lparr>volumeWindows := (volumeWindows st)(symb \<mapsto> RollingWindow_push vol win)\<rparr>;
          acc = (case vwapAccumulators st1 symb of
                   None \<Rightarrow> \<lparr>priceVolume = Fin 0, volume = Fin 0\<rparr> | Some a \<Rightarrow> a);
          acc1 = acc\<lparr>priceVolume := js_add (priceVolume acc) (js_mul close vol)\<rparr>;
          acc2 = acc1\<lparr>volume := js_add (volume acc1) vol\<rparr>
      in st1\<lparr>vwapAccumulators := (vwapAccumulators st1)(symb \<mapsto> acc2)\<rparr>)"

definition setRef :: "string \<Rightarrow> jsnum \<Rightarrow> MarketState \<Rightarrow> MarketState" where
  "setRef symb px0 st =
     (case referencePrices st symb of
        None \<Rightarrow> st\<lparr>referencePrices := (referencePrices st)(symb \<mapsto> px0)\<rparr>
      | Some r \<Rightarrow> st)"

definition resetSymbolState :: "string \<Rightarrow> MarketState \<Rightarrow> MarketState" where
  "resetSymbolState symb st =
     st\<lparr>volumeWindows := (volumeWindows st)(symb := None),
        vwapAccumulators := (vwapAccumulators st)(symb := None),
        referencePrices := (referencePrices st)(symb := None)\<rparr>"

record ConfirmSignal =
  symbol :: string
  ts :: jsnum
  price :: jsnum
  volZ :: jsnum
  ret1m :: jsnum
  vwapDev :: jsnum
  pass :: bool

text \<open>The local values of \<^verbatim>\<open>getConfirm\<close>, under their names in the source.\<close>

definition win_of :: "jsnum \<Rightarrow> MarketState \<Rightarrow> string \<Rightarrow> RollingWindow" where
  "win_of WINDOW_SIZE st symb =
     (case volumeWindows st symb of None \<Rightarrow> new_RollingWindow WINDOW_SIZE | Some w \<Rightarrow> w)"

definition volZ_of :: "jsnum \<Rightarrow> MarketState \<Rightarrow> string \<Rightarrow> jsnum" where
  "volZ_of WINDOW_SIZE st symb =
     (let win = win_of WINDOW_SIZE st symb;
          meanVol = RollingWindow_mean win;
          sdVol = RollingWindow_std win;
          lastVol = (case RollingWindow_last win of None \<Rightarrow> Fin 0 | Some v \<Rightarrow> v)
      in if js_gt sdVol (Fin 0) then js_div (js_sub lastVol meanVol) sdVol else Fin 0)"

definition vwapPx :: "MarketState \<Rightarrow> string \<Rightarrow> jsnum \<Rightarrow> jsnum" where
  "vwapPx st symb priceNow =
     (case vwapAccumulators st symb of
        None \<Rightarrow> priceNow
      | Some acc \<Rightarrow>
          if js_gt (volume acc) (Fin 0) then js_div (priceVolume acc) (volume acc)
          else priceNow)"

definition ref_of :: "MarketState \<Rightarrow> string \<Rightarrow> jsnum \<Rightarrow> jsnum" where
  "ref_of st symb priceNow =
     (case referencePrices st symb of None \<Rightarrow> vwapPx st symb priceNow | Some r \<Rightarrow> r)"

text \<open>\<^verbatim>\<open>getConfirm\<close> returns the signal; the model returns also the state the call
  leaves, which the source never writes.\<close>

definition getConfirm ::
  "Cfg \<Rightarrow> jsnum \<Rightarrow> jsnum \<Rightarrow> string \<Rightarrow> jsnum \<Rightarrow> MarketState \<Rightarrow> ConfirmSignal \<times> MarketState" where
  "getConfirm cfg WINDOW_SIZE dateNow symb priceNow st =
     (let volZ0 = volZ_of WINDOW_SIZE st symb;
          vwapDev0 = js_sub (js_div priceNow (vwapPx st symb priceNow)) (Fin 1);
          ret1m0 = js_sub (js_div priceNow (ref_of st symb priceNow)) (Fin 1);
          pass0 = ((js_ge volZ0 (VOL_Z_MIN cfg) \<and> js_ge ret1m0 (RET_1M_MIN cfg)) \<or>
                   (js_ge vwapDev0 (VWAP_DEV_MIN cfg) \<and>
                    js_ge volZ0 (js_sub (VOL_Z_MIN cfg) (Fin 0.5))))
      in (\<lparr>ConfirmSignal.symbol = symb, ConfirmSignal.ts = dateNow,
           ConfirmSignal.price = priceNow, ConfirmSignal.volZ = volZ0,
           ConfirmSignal.ret1m = ret1m0, ConfirmSignal.vwapDev = vwapDev0,
           ConfirmSignal.pass = pass0\<rparr>, st))"

text \<open>The divisors of the divisions that one call of \<^verbatim>\<open>getConfirm\<close> evaluates, in the
  order of evaluation: in \<^verbatim>\<open>mean\<close>, in \<^verbatim>\<open>std\<close> (which calls \<^verbatim>\<open>mean\<close> again), for
  the z-score, for the VWAP price, for the VWAP deviation and for the return.\<close>

definition mean_divisors :: "RollingWindow \<Rightarrow> jsnum list" where
  "mean_divisors w =
     (if window_values w = [] then [] else [Fin (real (length (window_values w)))])"

definition std_divisors :: "RollingWindow \<Rightarrow> jsnum list" where
  "std_divisors w =
     (if length (window_values w) \<le> 1 then []
      else mean_divisors w @ [js_sub (Fin (real (length (window_values w)))) (Fin 1)])"

definition getConfirm_divisors :: "jsnum \<Rightarrow> string \<Rightarrow> jsnum \<Rightarrow> MarketState \<Rightarrow> jsnum list" where
  "getConfirm_divisors WINDOW_SIZE symb priceNow st =
     (let win = win_of WINDOW_SIZE st symb
      in mean_divisors win @ std_divisors win @
         (if js_gt (RollingWindow_std win) (Fin 0) then [RollingWindow_std win] else []) @
         (case vwapAccumulators st symb of
            None \<Rightarrow> []
          | Some acc \<Rightarrow> if js_gt (volume acc) (Fin 0) then [volume acc] else []) @
         [vwapPx st symb priceNow, ref_of st symb priceNow])"

section \<open>Strings and the JavaScript runtime\<close>

text \<open>
  A JavaScript string is a sequence of UTF-16 code units, here natural numbers;
  \<open>js\<close> turns an ASCII literal into one.
\<close>

type_synonym jsstring = "nat list"

definition js :: "string \<Rightarrow> jsstring" where
  "js s = map of_char s"

text \<open>The code units that the class \<^verbatim>\<open>\s\<close> of a regular expression, \<^verbatim>\<open>trim\<close> and
  \<^verbatim>\<open>parseInt\<close> treat as white space.\<close>

definition is_js_space :: "nat \<Rightarrow> bool" where
  "is_js_space c =
     (c \<in> set [9, 10, 11, 12, 13, 32, 160, 5760, 8232, 8233, 8239, 8287, 12288, 65279] \<or>
      (8192 \<le> c \<and> c \<le> 8202))"

text \<open>\<^verbatim>\<open>s.includes(tok)\<close>: the token occurs in the string.\<close>

fun starts_with :: "jsstring \<Rightarrow> jsstring \<Rightarrow> bool" where
  "starts_with s [] = True"
| "starts_with [] (k # ks) = False"
| "starts_with (c # cs) (k # ks) = (c = k \<and> starts_with cs ks)"

fun js_includes :: "jsstring \<Rightarrow> jsstring \<Rightarrow> bool" where
  "js_includes [] tok = (tok = [])"
| "js_includes (c # cs) tok = (starts_with (c # cs) tok \<or> js_includes cs tok)"

text \<open>\<^verbatim>\<open>s.trim()\<close>.\<close>

definition js_trim :: "jsstring \<Rightarrow> jsstring" where
  "js_trim s = rev (dropWhile is_js_space (rev (dropWhile is_js_space s)))"

text \<open>\<^verbatim>\<open>parseInt(s, 10)\<close>: leading white space, an optional sign, then the longest
  run of decimal digits; \<^verbatim>\<open>NaN\<close> when there is no digit.\<close>

definition is_digit :: "nat \<Rightarrow> bool" where
  "is_digit c = (48 \<le> c \<and> c \<le> 57)"

definition parseInt10 :: "jsstring \<Rightarrow> jsnum" where
  "parseInt10 s =
     (let s1 = dropWhile is_js_space s;
          negative = (s1 \<noteq> [] \<and> hd s1 = 45);
          s2 = (if s1 \<noteq> [] \<and> (hd s1 = 45 \<or> hd s1 = 43) then tl s1 else s1);
          ds = takeWhile is_digit s2
      in if ds = [] then NaN
         else Fin ((if negative then - 1 else 1) *
                   real (foldl (\<lambda>n c. 10 * n + (c - 48)) 0 ds)))"

text \<open>
  What the code asks of the JavaScript runtime on strings, as parameters of the model.
  A regular expression literal of the source is named by the constant it is bound to
  (\<^verbatim>\<open>PAT.lawFirmPR\<close>, \<^verbatim>\<open>RX_LAWFIRM\<close>), or by the function that holds it when it has
  no name. None of the literals has the flag \<^verbatim>\<open>g\<close> or \<^verbatim>\<open>y\<close>, so \<^verbatim>\<open>test\<close> keeps no
  state between calls and is a function of the literal and the subject.
  \<^item> \<open>rx_test\<close>: \<^verbatim>\<open>re.test(subject)\<close>;
  \<^item> \<open>rx_group\<close>: \<^verbatim>\<open>subject.match(re)?.[k]\<close>, \<open>None\<close> when there is no match or the
    group did not take part in it;
  \<^item> \<open>url_hostname\<close>: \<^verbatim>\<open>new URL(u).hostname\<close>, \<open>None\<close> when the constructor throws;
  \<^item> \<open>toLowerCase\<close>: \<^verbatim>\<open>s.toLowerCase()\<close>.
\<close>

record js_runtime =
  rx_test :: "string \<Rightarrow> jsstring \<Rightarrow> bool"
  rx_group :: "string \<Rightarrow> nat \<Rightarrow> jsstring \<Rightarrow> jsstring option"
  url_hostname :: "jsstring \<Rightarrow> jsstring option"
  toLowerCase :: "jsstring \<Rightarrow> jsstring"

section \<open>News items (types.ts)\<close>

text \<open>
  Modelled from the spec: the item types of \<^verbatim>\<open>types.ts\<close>, a module that is not among
  the sources. The specification gives a news item the attributes id, url, title,
  summary, source, publishedAt and symbols, and a classified item the catalyst class and
  the raw score besides; these are also the fields that the provider adapters write.
  \<^verbatim>\<open>marketCap\<close> is the one further field that the scorer reads. A field that may be
  missing is an option.
\<close>

record RawItem =
  item_id :: jsstring
  url :: "jsstring option"
  title :: "jsstring option"
  summary :: "jsstring option"
  source :: jsstring
  publishedAt :: jsstring
  symbols :: "jsstring list option"
  marketCap :: "jsnum option"

record ClassifiedItem = RawItem +
  klass :: string
  score :: jsnum

section \<open>The classifier (pipeline/classify.ts)\<close>

text \<open>\<^verbatim>\<open>normalize\<close>: runs of white space become one space, typographic quotes and
  dashes become their ASCII counterparts, and the ends are trimmed.\<close>

primrec collapse_ws :: "bool \<Rightarrow> jsstring \<Rightarrow> jsstring" where
  "collapse_ws in_run [] = []"
| "collapse_ws in_run (c # cs) =
     (if is_js_space c then (if in_run then collapse_ws True cs else 32 # collapse_ws True cs)
      else c # collapse_ws False cs)"

definition ascii_quotes :: "nat \<Rightarrow> nat" where
  "ascii_quotes c =
     (if c = 8220 \<or> c = 8221 then 34
      else if c = 8217 \<or> c = 8216 then 39
      else if c = 8209 \<or> c = 8211 \<or> c = 8212 then 45
      else c)"

definition normalize_text :: "jsstring \<Rightarrow> jsstring" where
  "normalize_text s = js_trim (map ascii_quotes (collapse_ws False s))"

definition WIRE_HOSTS :: "jsstring list" where
  "WIRE_HOSTS =
     [js ''www.prnewswire.com'', js ''www.globenewswire.com'', js ''www.businesswire.com'',
      js ''www.accesswire.com'', js ''www.newsfilecorp.com'']"

definition WIRE_TOKENS :: "jsstring list" where
  "WIRE_TOKENS =
     [js ''PR Newswire'', js ''GlobeNewswire'', js ''Business Wire'', js ''ACCESSWIRE'',
      js ''Newsfile'']"

text \<open>The first half of \<^verbatim>\<open>isWirePR\<close>, the same in the classifier and in the scorer: the
  URL is given and not empty, it parses, and its host is a wire host or starts with
  \<^verbatim>\<open>ir.\<close> or \<^verbatim>\<open>investors.\<close>. An exception of the URL parser is caught and ignored.\<close>

definition wire_host :: "js_runtime \<Rightarrow> jsstring option \<Rightarrow> bool" where
  "wire_host rt u0 =
     (case u0 of
        None \<Rightarrow> False
      | Some u \<Rightarrow>
          u \<noteq> [] \<and>
          (case url_hostname rt u of
             None \<Rightarrow> False
           | Some h \<Rightarrow>
               (let host = toLowerCase rt h
                in host \<in> set WIRE_HOSTS \<or> rx_test rt ''isWirePR.irHost'' host)))"

definition isWirePR :: "js_runtime \<Rightarrow> jsstring option \<Rightarrow> jsstring \<Rightarrow> bool" where
  "isWirePR rt u0 text0 =
     (let t = normalize_text text0
      in if wire_host rt u0 then True
         else list_ex (\<lambda>tok. js_includes t tok) WIRE_TOKENS)"

definition hasBigPercentGrowth :: "js_runtime \<Rightarrow> jsstring \<Rightarrow> bool" where
  "hasBigPercentGrowth rt x =
     (if (case rx_group rt ''hasBigPercentGrowth.r'' 3 x of
            None \<Rightarrow> False
          | Some g \<Rightarrow> g \<noteq> [] \<and> parseInt10 g \<noteq> NaN \<and> js_ge (parseInt10 g) (Fin 50))
        then True
      else rx_test rt ''hasBigPercentGrowth.record'' x)"

definition hasSwingToProfit :: "js_runtime \<Rightarrow> jsstring \<Rightarrow> bool" where
  "hasSwingToProfit rt x = rx_test rt ''hasSwingToProfit'' x"

text \<open>A hit is a label, a weight and a reason; \<^verbatim>\<open>push\<close> adds one when its condition
  holds. The hits are collected in the order of the source.\<close>

type_synonym ScoreHit = "string \<times> real \<times> string"

definition push :: "bool \<Rightarrow> string \<Rightarrow> real \<Rightarrow> string \<Rightarrow> ScoreHit list" where
  "push ok label weight why = (if ok then [(label, weight, why)] else [])"

definition bio_hits :: "js_runtime \<Rightarrow> bool \<Rightarrow> jsstring \<Rightarrow> ScoreHit list" where
  "bio_hits rt isPR x =
     (if isPR then
        push (rx_test rt ''PAT.approval'' x) ''FDA_MARKETING_AUTH'' 10 ''approval'' @
        push (rx_test rt ''PAT.adcom'' x) ''FDA_ADCOM_POSITIVE'' 8 ''adcom_positive'' @
        push (rx_test rt ''PAT.pivotal'' x \<or> rx_test rt ''PAT.topline'' x)
             ''PIVOTAL_TRIAL_SUCCESS'' 9 ''pivotal_or_topline'' @
        push (rx_test rt ''PAT.designation'' x) ''REGULATORY_DESIGNATION'' 6 ''designation''
      else [])"

definition mna_hits :: "js_runtime \<Rightarrow> jsstring \<Rightarrow> ScoreHit list" where
  "mna_hits rt x =
     (let binding = (rx_test rt ''PAT.mnaBinding'' x \<or>
                     (rx_test rt ''PAT.mnaWillAcquire'' x \<and>
                      rx_test rt ''PAT.mnaPerShareOrValue'' x));
          nonbind = rx_test rt ''PAT.mnaNonBinding'' x;
          admin = rx_test rt ''PAT.mnaAdminOnly'' x;
          asset = rx_test rt ''PAT.mnaAssetOrProperty'' x
      in push (binding \<and> \<not> nonbind \<and> \<not> admin \<and> \<not> asset)
              ''ACQUISITION_BUYOUT'' 9 ''mna_binding'' @
         (if nonbind \<or> admin \<or> asset then push True ''OTHER'' 2 ''mna_low_impact'' else []))"

definition gov_hits :: "js_runtime \<Rightarrow> bool \<Rightarrow> jsstring \<Rightarrow> ScoreHit list" where
  "gov_hits rt isPR x =
     (let govContract = (rx_test rt ''PAT.govWords'' x \<and> rx_test rt ''PAT.contractAny'' x);
          govEquity = rx_test rt ''PAT.govEquity'' x;
          isPartnership = (rx_test rt ''PAT.partnershipAny'' x \<or>
                           rx_test rt ''PAT.contractAny'' x \<or>
                           rx_test rt ''PAT.dealSigned'' x \<or>
                           (rx_test rt ''TIER1_RX'' x \<and>
                            rx_test rt ''classifyOne.verbsTier1'' x));
          hasTier1 = rx_test rt ''TIER1_RX'' x;
          hasScale = (rx_test rt ''LARGE_DOLLARS'' x \<or> rx_test rt ''SCALE'' x);
          nameDropOnly = (hasTier1 \<and> \<not> isPartnership \<and> rx_test rt ''PAT.nameDropContext'' x)
      in (if isPR \<and> govContract \<and> \<not> rx_test rt ''PAT.govRoutine'' x
            then push True ''MAJOR_GOV_CONTRACT'' 8 ''gov_contract'' else []) @
         (if isPR \<and> govContract \<and> rx_test rt ''PAT.govRoutine'' x
            then push True ''OTHER'' 2 ''gov_routine'' else []) @
         push govEquity ''GOVERNMENT_EQUITY_OR_GRANT'' 9 ''gov_equity'' @
         (if isPartnership \<and> (hasTier1 \<or> hasScale) \<and> \<not> nameDropOnly
            then push True ''TIER1_PARTNERSHIP'' (if hasTier1 then 8 else 6)
                      (if hasTier1 then ''tier1'' else ''scale'')
          else []) @
         (if \<not> isPartnership \<and> nameDropOnly
            then push True ''MEME_OR_INFLUENCER'' 4 ''tier1_name_drop_only'' else []))"

definition corporate_hits :: "js_runtime \<Rightarrow> jsstring \<Rightarrow> ScoreHit list" where
  "corporate_hits rt x =
     (let beatOrGuide = rx_test rt ''PAT.earningsBeatGuideUp'' x;
          resultsBlob = rx_test rt ''PAT.financialResultsOnly'' x;
          strongExceptions = (hasSwingToProfit rt x \<or> hasBigPercentGrowth rt x)
      in push (beatOrGuide \<or> (resultsBlob \<and> strongExceptions)) ''EARNINGS_BEAT_OR_GUIDE_UP''
              (if beatOrGuide then 6 else 5)
              (if beatOrGuide then ''earnings'' else ''results_exception'') @
         (if rx_test rt ''PAT.indexInclusion'' x
            then push True ''INDEX_INCLUSION'' 3 ''index_inclusion'' else []) @
         push (rx_test rt ''PAT.uplist'' x) ''UPLISTING_TO_NASDAQ'' 5 ''uplist'' @
         push (rx_test rt ''PAT.listingCompliance'' x) ''UPLISTING_TO_NASDAQ'' 6 ''compliance'')"

definition other_hits :: "js_runtime \<Rightarrow> jsstring \<Rightarrow> ScoreHit list" where
  "other_hits rt x =
     push (rx_test rt ''PAT.courtWin'' x) ''COURT_WIN_INJUNCTION'' 6 ''court'' @
     push (rx_test rt ''PAT.memeOrInfluencer'' x) ''MEME_OR_INFLUENCER'' 6 ''influencer'' @
     (if rx_test rt ''PAT.cryptoTreasuryBuy'' x
        then push True ''RESTRUCTURING_OR_FINANCING'' 7 ''crypto_treasury_buy'' else []) @
     (if rx_test rt ''PAT.cryptoTreasuryDiscuss'' x
        then push True ''RESTRUCTURING_OR_FINANCING'' 6 ''crypto_treasury_discuss'' else []) @
     (if rx_test rt ''PAT.antiDilutionPositive'' x
        then push True ''RESTRUCTURING_OR_FINANCING'' 7 ''anti_dilution_positive'' else []) @
     (if rx_test rt ''PAT.financialResultsOnly'' x \<and>
         \<not> rx_test rt ''PAT.earningsBeatGuideUp'' x \<and>
         \<not> hasSwingToProfit rt x \<and> \<not> hasBigPercentGrowth rt x
        then push True ''OTHER'' (- 4) ''generic_fin_results_only'' else [])"

text \<open>
  The \<^verbatim>\<open>Map\<close> of the totals keeps its keys in the order of their first insertion:
  an association list, where \<^verbatim>\<open>by.set(k, (by.get(k) ?? 0) + w)\<close> adds to the entry of
  the key or appends a new one.
\<close>

fun by_add :: "(string \<times> real) list \<Rightarrow> string \<Rightarrow> real \<Rightarrow> (string \<times> real) list" where
  "by_add [] k v = [(k, v)]"
| "by_add ((k', v') # m) k v =
     (if k' = k then (k', v' + v) # m else (k', v') # by_add m k v)"

definition by_has :: "(string \<times> real) list \<Rightarrow> string \<Rightarrow> bool" where
  "by_has m k = (map_of m k \<noteq> None)"

definition by_get0 :: "(string \<times> real) list \<Rightarrow> string \<Rightarrow> real" where
  "by_get0 m k = (case map_of m k of None \<Rightarrow> 0 | Some v \<Rightarrow> v)"

text \<open>
  The rules after the hard guards: the hits, their totals by label, the two synergies,
  and the selection. \<^verbatim>\<open>sort\<close> is stable, so among the labels of the highest total the
  one inserted first is selected.
\<close>

definition classifyRules :: "js_runtime \<Rightarrow> jsstring option \<Rightarrow> jsstring \<Rightarrow> string \<times> jsnum" where
  "classifyRules rt u0 x =
     (let isPR = isWirePR rt u0 x;
          hits = bio_hits rt isPR x @ mna_hits rt x @ gov_hits rt isPR x @
                 corporate_hits rt x @ other_hits rt x
      in if hits = [] then (''OTHER'', Fin 0)
         else
           (let by0 = foldl (\<lambda>m (label, weight, why). by_add m label weight) [] hits;
                by1 = (if by_has by0 ''PIVOTAL_TRIAL_SUCCESS'' \<and> by_has by0 ''FDA_MARKETING_AUTH''
                         then by_add by0 ''FDA_MARKETING_AUTH'' 3 else by0);
                by2 = (if (by_has by1 ''TIER1_PARTNERSHIP'' \<or> by_has by1 ''MAJOR_GOV_CONTRACT'' \<or>
                           by_has by1 ''GOVERNMENT_EQUITY_OR_GRANT'') \<and>
                          (rx_test rt ''LARGE_DOLLARS'' x \<or> rx_test rt ''SCALE'' x)
                         then by_add by1 ''OTHER'' 2 else by1);
                total = foldl (+) 0 (map snd by2);
                strongCatalyst =
                  (by_get0 by2 ''ACQUISITION_BUYOUT'' \<ge> 8 \<or>
                   by_get0 by2 ''FDA_MARKETING_AUTH'' \<ge> 8 \<or>
                   by_get0 by2 ''PIVOTAL_TRIAL_SUCCESS'' \<ge> 8 \<or>
                   by_get0 by2 ''MAJOR_GOV_CONTRACT'' \<ge> 8 \<or>
                   by_get0 by2 ''RESTRUCTURING_OR_FINANCING'' \<ge> 7 \<or>
                   by_get0 by2 ''UPLISTING_TO_NASDAQ'' \<ge> 6)
            in if total \<le> 0 \<and> \<not> strongCatalyst then (''OTHER'', Fin 0)
               else (case sort_key (\<lambda>e. - snd e) by2 of
                       [] \<Rightarrow> (''OTHER'', Fin 0)
                     | e # es \<Rightarrow> (fst e, Fin (snd e)))))"

text \<open>The text that the patterns of the classifier are tested on: the normalized title,
  a line feed, the normalized summary; a missing field counts as the empty string.\<close>

definition classify_text :: "'a RawItem_scheme \<Rightarrow> jsstring" where
  "classify_text it =
     normalize_text (case title it of None \<Rightarrow> [] | Some t \<Rightarrow> t) @ [10] @
     normalize_text (case summary it of None \<Rightarrow> [] | Some b \<Rightarrow> b)"

text \<open>\<^verbatim>\<open>classifyOne\<close>: the hard guards in the order of the source, each an early return,
  then the rules.\<close>

definition classifyOne :: "js_runtime \<Rightarrow> RawItem \<Rightarrow> string \<times> jsnum" where
  "classifyOne rt it =
     (let x = classify_text it
      in if rx_test rt ''PAT.securityIncidentUpdate'' x then (''OTHER'', Fin 0)
         else if rx_test rt ''PAT.awardsPR'' x then (''OTHER'', Fin 0)
         else if (rx_test rt ''PAT.proxyAdvisor'' x \<or> rx_test rt ''PAT.voteAdminOnly'' x) \<and>
                 \<not> rx_test rt ''PAT.mnaBinding'' x then (''OTHER'', Fin 0)
         else if rx_test rt ''PAT.investorConfs'' x then (''OTHER'', Fin 0)
         else if rx_test rt ''PAT.lawFirmPR'' x then (''OTHER'', Fin 0)
         else if rx_test rt ''PAT.shelfOrATM'' x then (''OTHER'', Fin 0)
         else if rx_test rt ''PAT.analystMedia'' x then (''OTHER'', Fin 0)
         else if rx_test rt ''PAT.typoErratum'' x then (''OTHER'', Fin 0)
         else if rx_test rt ''PAT.plainDilution'' x \<and>
                 \<not> rx_test rt ''classifyOne.premiumOrStrategic'' x then (''OTHER'', Fin 0.1)
         else classifyRules rt (url it) x)"

text \<open>\<^verbatim>\<open>classify\<close>: every item with the two fields added.\<close>

definition classify_item :: "js_runtime \<Rightarrow> RawItem \<Rightarrow> ClassifiedItem" where
  "classify_item rt it =
     RawItem.extend it
       (ClassifiedItem.fields (fst (classifyOne rt it)) (snd (classifyOne rt it)))"

definition classify :: "js_runtime \<Rightarrow> RawItem list \<Rightarrow> ClassifiedItem list" where
  "classify rt items = map (classify_item rt) items"

section \<open>The scorer (pipeline/score.ts)\<close>

text \<open>The table of baselines; a class that is not in the table gets the baseline of
  \<^verbatim>\<open>OTHER\<close>.\<close>

definition BASELINE :: "(string \<times> jsnum) list" where
  "BASELINE =
     [(''PIVOTAL_TRIAL_SUCCESS'', Fin 0.72),
      (''FDA_MARKETING_AUTH'', Fin 0.7),
      (''FDA_ADCOM_POSITIVE'', Fin 0.66),
      (''REGULATORY_DESIGNATION'', Fin 0.54),
      (''TIER1_PARTNERSHIP'', Fin 0.6),
      (''MAJOR_GOV_CONTRACT'', Fin 0.6),
      (''GOVERNMENT_EQUITY_OR_GRANT'', Fin 0.58),
      (''ACQUISITION_BUYOUT'', Fin 0.64),
      (''IPO_DEBUT_POP'', Fin 0.55),
      (''COURT_WIN_INJUNCTION'', Fin 0.56),
      (''MEME_OR_INFLUENCER'', Fin 0.5),
      (''RESTRUCTURING_OR_FINANCING'', Fin 0.5),
      (''POLICY_OR_POLITICS_TAILWIND'', Fin 0.44),
      (''EARNINGS_BEAT_OR_GUIDE_UP'', Fin 0.52),
      (''INDEX_INCLUSION'', Fin 0.5),
      (''UPLISTING_TO_NASDAQ'', Fin 0.46),
      (''OTHER'', Fin 0.2)]"

definition baseline_of :: "string \<Rightarrow> jsnum" where
  "baseline_of label =
     (case map_of BASELINE label of
        None \<Rightarrow> (case map_of BASELINE ''OTHER'' of None \<Rightarrow> NaN | Some b \<Rightarrow> b)
      | Some b \<Rightarrow> b)"

text \<open>\<^verbatim>\<open>isWirePR\<close> of the scorer compares in lower case.\<close>

definition isWirePR_score :: "js_runtime \<Rightarrow> jsstring option \<Rightarrow> jsstring \<Rightarrow> bool" where
  "isWirePR_score rt u0 text0 =
     (let t = toLowerCase rt text0
      in if wire_host rt u0 then True
         else list_ex (\<lambda>tok. js_includes t (toLowerCase rt tok)) WIRE_TOKENS)"

text \<open>The three shapes of update of the running score: \<^verbatim>\<open>if (c) s = Math.min(s, k)\<close>,
  \<^verbatim>\<open>if (c) s += k\<close> and \<^verbatim>\<open>if (c) s -= k\<close>.\<close>

definition cap_if :: "bool \<Rightarrow> real \<Rightarrow> jsnum \<Rightarrow> jsnum" where
  "cap_if c k s = (if c then Math_min s (Fin k) else s)"

definition add_if :: "bool \<Rightarrow> real \<Rightarrow> jsnum \<Rightarrow> jsnum" where
  "add_if c k s = (if c then js_add s (Fin k) else s)"

definition sub_if :: "bool \<Rightarrow> real \<Rightarrow> jsnum \<Rightarrow> jsnum" where
  "sub_if c k s = (if c then js_sub s (Fin k) else s)"

text \<open>The text of an item for the scorer: title, a space, summary; and the number of its
  symbols, 0 when the list is missing.\<close>

definition blob_of :: "'a RawItem_scheme \<Rightarrow> jsstring" where
  "blob_of it =
     (case title it of None \<Rightarrow> [] | Some t \<Rightarrow> t) @ [32] @
     (case summary it of None \<Rightarrow> [] | Some b \<Rightarrow> b)"

definition symbols_count :: "'a RawItem_scheme \<Rightarrow> nat" where
  "symbols_count it = (case symbols it of None \<Rightarrow> 0 | Some l \<Rightarrow> length l)"

text \<open>The steps of \<^verbatim>\<open>score\<close>, one definition for each numbered block of the source,
  from the score so far to the score after the block.\<close>

definition early_caps :: "js_runtime \<Rightarrow> jsstring \<Rightarrow> jsnum \<Rightarrow> jsnum" where
  "early_caps rt blob s0 =
     (let s1 = cap_if (rx_test rt ''RX_PROXY_ADVISOR'' blob \<or>
                       rx_test rt ''RX_VOTE_ADMIN_ONLY'' blob) 0.2 s0;
          s2 = cap_if (rx_test rt ''RX_LAWFIRM'' blob) 0.12 s1;
          s3 = cap_if (rx_test rt ''RX_AWARDS'' blob) 0.18 s2;
          s4 = cap_if (rx_test rt ''RX_SECURITY_UPDATE'' blob) 0.16 s3;
          s5 = cap_if (rx_test rt ''RX_INVESTOR_CONFS'' blob) 0.16 s4;
          s6 = cap_if (rx_test rt ''RX_ANALYST'' blob \<or>
                       rx_test rt ''RX_MEDIA_INTERVIEW'' blob) 0.16 s5;
          s7 = cap_if (rx_test rt ''RX_SHELF_ATM'' blob) 0.18 s6;
          isSpecialDividend = rx_test rt ''RX_SPECIAL_DIVIDEND'' blob;
          s8 = cap_if (\<not> isSpecialDividend \<and> rx_test rt ''RX_BUYBACK_DIV'' blob) 0.2 s7
      in cap_if (rx_test rt ''RX_STRAT_ALTS'' blob) 0.3 s8)"

definition dilutive_cap :: "js_runtime \<Rightarrow> jsstring \<Rightarrow> jsnum \<Rightarrow> jsnum" where
  "dilutive_cap rt blob s0 =
     (let isPlainDilutive =
            (rx_test rt ''score.isPlainDilutive'' blob \<and>
             \<not> (rx_test rt ''RX_FINANCING_PREMIUM'' blob \<or>
                rx_test rt ''RX_FINANCING_STRATEGIC'' blob \<or>
                rx_test rt ''RX_FINANCING_GOING'' blob))
      in cap_if isPlainDilutive 0.18 s0)"

definition bio_nuance :: "js_runtime \<Rightarrow> string \<Rightarrow> jsstring \<Rightarrow> jsnum \<Rightarrow> jsnum" where
  "bio_nuance rt label blob s0 =
     (if label = ''PIVOTAL_TRIAL_SUCCESS'' then
        (let s1 = (if rx_test rt ''RX_PIVOTAL'' blob then js_add s0 (Fin 0.05)
                   else if rx_test rt ''RX_MID_STAGE_WIN'' blob then js_add s0 (Fin 0.05)
                   else s0);
             s2 = sub_if (\<not> rx_test rt ''RX_TOPLINE_STRONG'' blob) 0.05 s1;
             s3 = add_if (rx_test rt ''RX_PRECLIN_NHP'' blob) 0.06 s2;
             s4 = add_if (rx_test rt ''RX_CELL_MODEL'' blob)
                         (if rx_test rt ''RX_HOT_DISEASE'' blob then 0.06 else 0.04) s3;
             journalStrong = (rx_test rt ''RX_JOURNAL'' blob \<and>
                              rx_test rt ''RX_TOPLINE_STRONG'' blob)
         in add_if journalStrong 0.04 s4)
      else s0)"

definition approvals_split :: "js_runtime \<Rightarrow> string \<Rightarrow> jsstring \<Rightarrow> jsnum \<Rightarrow> jsnum" where
  "approvals_split rt label blob s0 =
     (if label = ''FDA_MARKETING_AUTH'' then
        (let s1 = cap_if (rx_test rt ''RX_CE_MARK'' blob) 0.46 s0;
             s2 = cap_if (rx_test rt ''RX_510K'' blob) 0.46 s1
         in cap_if (rx_test rt ''RX_SUPPLEMENTAL'' blob) 0.58 s2)
      else s0)"

definition process_guards :: "js_runtime \<Rightarrow> jsstring \<Rightarrow> jsnum \<Rightarrow> jsnum" where
  "process_guards rt blob s0 =
     (let hasStrongOutcome =
            (rx_test rt ''RX_TOPLINE_STRONG'' blob \<or> rx_test rt ''RX_PIVOTAL'' blob \<or>
             rx_test rt ''RX_MID_STAGE_WIN'' blob)
      in if \<not> hasStrongOutcome then
           (let s1 = cap_if (rx_test rt ''RX_REG_PROCESS'' blob) 0.42 s0;
                s2 = cap_if (rx_test rt ''RX_JOURNAL'' blob) 0.42 s1
            in cap_if (rx_test rt ''RX_CONFERENCE'' blob) 0.38 s2)
         else s0)"

definition mna_specifics :: "js_runtime \<Rightarrow> string \<Rightarrow> jsstring \<Rightarrow> jsnum \<Rightarrow> jsnum" where
  "mna_specifics rt label blob s0 =
     (if label = ''ACQUISITION_BUYOUT'' then
        (let definitive =
               (rx_test rt ''RX_MNA_DEFINITIVE'' blob \<or>
                (rx_test rt ''RX_MNA_WILL_ACQUIRE'' blob \<and> rx_test rt ''RX_MNA_PERPRICE'' blob));
             s1 = add_if definitive 0.06 s0;
             s2 = add_if (rx_test rt ''RX_MNA_TENDER'' blob) 0.04 s1;
             s3 = add_if (rx_test rt ''RX_MNA_REVISED'' blob) 0.06 s2;
             s4 = add_if (rx_test rt ''RX_MNA_CASHSTOCK'' blob) 0.02 s3;
             s5 = add_if (rx_test rt ''RX_MNA_PERPRICE'' blob) 0.02 s4;
             s6 = sub_if (rx_test rt ''RX_MNA_LOI_ANY'' blob) 0.06 s5;
             s7 = cap_if (rx_test rt ''RX_MNA_ADMIN'' blob) 0.4 s6
         in cap_if (rx_test rt ''RX_ASSET_SALE'' blob \<or> rx_test rt ''RX_PROPERTY_ACQ'' blob)
                   0.4 s7)
      else s0)"

definition gov_followon_cap :: "js_runtime \<Rightarrow> string \<Rightarrow> jsstring \<Rightarrow> jsnum \<Rightarrow> jsnum" where
  "gov_followon_cap rt label blob s0 =
     cap_if (label = ''MAJOR_GOV_CONTRACT'' \<and> rx_test rt ''score.govFollowOn'' blob) 0.48 s0"

definition index_inclusion :: "js_runtime \<Rightarrow> string \<Rightarrow> jsstring \<Rightarrow> jsnum \<Rightarrow> jsnum" where
  "index_inclusion rt label blob s0 =
     (if label = ''INDEX_INCLUSION'' then
        (let s1 = add_if (rx_test rt ''RX_INDEX_MAJOR'' blob) 0.04 s0
         in cap_if (rx_test rt ''RX_INDEX_MINOR'' blob) 0.4 s1)
      else s0)"

definition wireSensitive :: "string \<Rightarrow> bool" where
  "wireSensitive label =
     (label = ''PIVOTAL_TRIAL_SUCCESS'' \<or> label = ''FDA_MARKETING_AUTH'' \<or>
      label = ''FDA_ADCOM_POSITIVE'' \<or> label = ''TIER1_PARTNERSHIP'' \<or>
      label = ''MAJOR_GOV_CONTRACT'' \<or> label = ''GOVERNMENT_EQUITY_OR_GRANT'' \<or>
      label = ''ACQUISITION_BUYOUT'' \<or> label = ''EARNINGS_BEAT_OR_GUIDE_UP'' \<or>
      label = ''INDEX_INCLUSION'' \<or> label = ''UPLISTING_TO_NASDAQ'')"

definition wire_modulation ::
  "js_runtime \<Rightarrow> string \<Rightarrow> bool \<Rightarrow> jsstring \<Rightarrow> jsnum \<Rightarrow> jsnum" where
  "wire_modulation rt label isWire blob s0 =
     (let tier1Powered = (rx_test rt ''TIER1_RX'' blob \<and> rx_test rt ''RX_TIER1_VERBS'' blob)
      in if wireSensitive label then
           (let definitiveMnaOffWire =
                  (label = ''ACQUISITION_BUYOUT'' \<and> \<not> isWire \<and>
                   (rx_test rt ''RX_MNA_DEFINITIVE'' blob \<or>
                    (rx_test rt ''RX_MNA_WILL_ACQUIRE'' blob \<and>
                     rx_test rt ''RX_MNA_PERPRICE'' blob)))
            in if \<not> (definitiveMnaOffWire \<or> tier1Powered) then
                 (if isWire then js_add s0 (Fin 0.04) else Math_min s0 (Fin 0.48))
               else s0)
         else s0)"

definition crypto_treasury :: "js_runtime \<Rightarrow> string \<Rightarrow> jsstring \<Rightarrow> jsnum \<Rightarrow> jsnum" where
  "crypto_treasury rt label blob s0 =
     (let isCryptoBuy = rx_test rt ''RX_CRYPTO_TREASURY_BUY'' blob;
          isCryptoDiscuss = rx_test rt ''RX_CRYPTO_TREASURY_DISCUSS'' blob
      in if label = ''RESTRUCTURING_OR_FINANCING'' \<or> isCryptoBuy \<or> isCryptoDiscuss then
           (let s1 = add_if isCryptoBuy 0.14 s0;
                s2 = add_if isCryptoDiscuss 0.1 s1
            in add_if (rx_test rt ''LARGE_DOLLAR_AMOUNT'' blob) 0.04 s2)
         else s0)"

definition generic_results :: "js_runtime \<Rightarrow> jsstring \<Rightarrow> jsnum \<Rightarrow> jsnum" where
  "generic_results rt blob s0 =
     (let hasBigPct =
            (case rx_group rt ''score.pctMatch'' 3 blob of
               None \<Rightarrow> False
             | Some g \<Rightarrow>
                 if g \<noteq> [] then parseInt10 g \<noteq> NaN \<and> js_ge (parseInt10 g) (Fin 50)
                 else False);
          swingProfit = rx_test rt ''score.swingProfit'' blob
      in if rx_test rt ''RX_FIN_RESULTS'' blob \<and> \<not> rx_test rt ''RX_EARNINGS_BEAT'' blob then
           (if hasBigPct \<or> swingProfit
              then js_add s0 (Fin (if swingProfit then 0.1 else 0.08))
            else Math_min s0 (Fin 0.32))
         else s0)"

definition generic_boosters ::
  "js_runtime \<Rightarrow> ClassifiedItem \<Rightarrow> jsstring \<Rightarrow> jsnum \<Rightarrow> jsnum" where
  "generic_boosters rt it blob s0 =
     (let isSmallCap =
            (js_gt (case marketCap it of None \<Rightarrow> Fin 0 | Some m \<Rightarrow> m) (Fin 0) \<and>
             (case marketCap it of None \<Rightarrow> False | Some m \<Rightarrow> js_lt m (Fin 1000000000)));
          s1 = add_if isSmallCap 0.14 s0;
          s2 = add_if (rx_test rt ''SUPERLATIVE_WORDS'' blob) 0.04 s1;
          s3 = add_if (rx_test rt ''LARGE_DOLLAR_AMOUNT'' blob) 0.06 s2;
          s4 = add_if (rx_test rt ''BIG_MOVE_WORDS'' blob) 0.06 s3
      in add_if (symbols_count it = 1) 0.03 s4)"

text \<open>The score of one item: 0 at once for a retracted or unauthorized release, else the
  baseline of the class carried through the blocks and bounded to the interval from 0
  to 1.\<close>

definition score_value :: "js_runtime \<Rightarrow> ClassifiedItem \<Rightarrow> jsnum" where
  "score_value rt it =
     (let blob = blob_of it;
          isWire = isWirePR_score rt (url it) blob;
          label = klass it
      in if rx_test rt ''RX_MISINFO'' blob then Fin 0
         else
           (let s1 = baseline_of label;
                s2 = early_caps rt blob s1;
                s3 = dilutive_cap rt blob s2;
                s4 = bio_nuance rt label blob s3;
                s5 = approvals_split rt label blob s4;
                s6 = process_guards rt blob s5;
                s7 = mna_specifics rt label blob s6;
                s8 = gov_followon_cap rt label blob s7;
                s9 = index_inclusion rt label blob s8;
                s10 = wire_modulation rt label isWire blob s9;
                s11 = crypto_treasury rt label blob s10;
                s12 = generic_results rt blob s11;
                s13 = add_if (rx_test rt ''RX_ANTI_DILUTION_POS'' blob) 0.12 s12;
                s14 = add_if (rx_test rt ''RX_LISTING_COMPLIANCE'' blob) 0.12 s13;
                s15 = add_if (rx_test rt ''RX_SPECIAL_DIVIDEND'' blob) 0.14 s14;
                s16 = generic_boosters rt it blob s15
            in Math_max (Fin 0) (Math_min (Fin 1) s16)))"

text \<open>\<^verbatim>\<open>score\<close>: every item with its score field replaced.\<close>

definition score_item :: "js_runtime \<Rightarrow> ClassifiedItem \<Rightarrow> ClassifiedItem" where
  "score_item rt it = it\<lparr>ClassifiedItem.score := score_value rt it\<rparr>"

definition score :: "js_runtime \<Rightarrow> ClassifiedItem list \<Rightarrow> ClassifiedItem list" where
  "score rt items = map (score_item rt) items"

section \<open>Example inputs\<close>

text \<open>A position bought at 10 with session high 12; an order without the optional
  fields; a short trading session on one symbol; thresholds for the gate and a state fed
  with three bars of the symbol X.\<close>

definition example_position :: Position where
  "example_position =
     \<lparr>Position.symbol = ''X'', Position.qty = Fin 100, Position.avg = Fin 10,
      Position.openTs = Fin 0, Position.high = Fin 12\<rparr>"

definition order_of :: "Side \<Rightarrow> string \<Rightarrow> jsnum \<Rightarrow> jsnum \<Rightarrow> jsnum \<Rightarrow> Order" where
  "order_of sd symb q t p =
     \<lparr>Order.side = sd, Order.symbol = symb, Order.qty = q, Order.ts = t, Order.px = p,
      Order.stopPx = None, Order.notional = None\<rparr>"

definition example_ops :: "LedgerOp list" where
  "example_ops =
     [OpFill (order_of Buy ''X'' (Fin 100) (Fin 0) (Fin 10)),
      OpFill (order_of Sell ''X'' (Fin 40) (Fin 60000) (Fin 12)),
      OpTryExit ''X'' (Fin 12) (Fin 120000),
      OpFill (order_of Sell ''X'' (Fin 60) (Fin 180000) (Fin 12))]"

definition example_cfg :: Cfg where
  "example_cfg = \<lparr>VOL_Z_MIN = Fin 1, RET_1M_MIN = Fin 0.01, VWAP_DEV_MIN = Fin 0.005\<rparr>"

definition example_market :: MarketState where
  "example_market =
     setRef ''X'' (Fin 10)
       (onAgg (Fin 60) ''X'' (Fin 12) (Fin 300)
         (onAgg (Fin 60) ''X'' (Fin 11) (Fin 200)
           (onAgg (Fin 60) ''X'' (Fin 10) (Fin 100) empty_MarketState)))"

text \<open>A state after one bar of X with the volume 0, and the condition of zero
  accumulated volume: no accumulator, or one whose volume is 0.\<close>

definition zero_volume_market :: MarketState where
  "zero_volume_market = onAgg (Fin 60) ''X'' (Fin 10) (Fin 0) empty_MarketState"

definition zero_accumulated_volume :: "MarketState \<Rightarrow> string \<Rightarrow> bool" where
  "zero_accumulated_volume st symb =
     (case vwapAccumulators st symb of None \<Rightarrow> True | Some acc \<Rightarrow> volume acc = Fin 0)"


text \<open>
  Items and runtimes for the examples of the classifier and the scorer. A runtime of an
  example gives the answers of the JavaScript runtime on the subjects of that example:
  of the patterns of the classifier, only \<^verbatim>\<open>PAT.awardsPR\<close> matches the text of an item
  titled "winner" and only \<^verbatim>\<open>PAT.lawFirmPR\<close> that of one titled "class action"; none
  of the patterns of the scorer matches "a" or "a b"; the host of the example URL is a
  wire host.
\<close>

definition ascii_lower :: "jsstring \<Rightarrow> jsstring" where
  "ascii_lower s = map (\<lambda>c. if 65 \<le> c \<and> c \<le> 90 then c + 32 else c) s"

definition guard_runtime :: js_runtime where
  "guard_runtime =
     \<lparr>rx_test = (\<lambda>name subject.
                   (name = ''PAT.awardsPR'' \<and> subject = js ''winner'' @ [10]) \<or>
                   (name = ''PAT.lawFirmPR'' \<and> subject = js ''class action'' @ [10])),
      rx_group = (\<lambda>name k subject. None),
      url_hostname = (\<lambda>u. None),
      toLowerCase = ascii_lower\<rparr>"

definition raw_item :: "jsstring option \<Rightarrow> jsstring option \<Rightarrow> RawItem" where
  "raw_item t0 b0 =
     \<lparr>item_id = js ''1'', url = None, title = t0, summary = b0, source = js ''fmp_pr'',
      publishedAt = js ''2025-01-01T00:00:00Z'', symbols = Some [js ''X''],
      marketCap = None\<rparr>"

definition quiet_runtime :: js_runtime where
  "quiet_runtime =
     \<lparr>rx_test = (\<lambda>name subject. False),
      rx_group = (\<lambda>name k subject. None),
      url_hostname = (\<lambda>u. if u = js ''https://www.prnewswire.com/a''
                            then Some (js ''www.prnewswire.com'') else None),
      toLowerCase = ascii_lower\<rparr>"

definition classified_item ::
  "string \<Rightarrow> jsstring option \<Rightarrow> jsstring option \<Rightarrow> jsstring option \<Rightarrow> jsnum option \<Rightarrow>
   jsstring list option \<Rightarrow> jsnum \<Rightarrow> ClassifiedItem" where
  "classified_item k t0 b0 u0 cap syms raw =
     \<lparr>item_id = js ''1'', url = u0, title = t0, summary = b0, source = js ''fmp_pr'',
      publishedAt = js ''2025-01-01T00:00:00Z'', symbols = syms, marketCap = cap,
      klass = k, score = raw\<rparr>"

section \<open>Facts about the number operations\<close>

lemma js_gt_irrefl: "\<not> js_gt x x"
  by (cases x) (simp_all add: js_gt_def)

lemma js_lt_zero_add: "js_lt (Fin 0) x \<Longrightarrow> 0 < q \<Longrightarrow> js_lt (Fin 0) (js_add x (Fin q))"
  by (cases x) auto

lemma guard_finite:
  "\<not> js_le x (Fin 0) \<Longrightarrow> Number_isFinite x \<Longrightarrow> \<exists>q. x = Fin q \<and> 0 < q"
  by (cases x) (auto simp: js_le_def js_eq_def)

lemma sell_step:
  assumes "js_lt (Fin 0) x" "0 < q"
  shows "\<not> js_le (Math_min (Fin q) x) (Fin 0)"
    and "\<not> js_eq (js_sub x (Math_min (Fin q) x)) (Fin 0) \<Longrightarrow>
         js_lt (Fin 0) (js_sub x (Math_min (Fin q) x))"
  using assms by (cases x; auto simp: Math_min_def js_le_def js_eq_def js_sub_def)+

lemma self_div: "a \<noteq> 0 \<Longrightarrow> js_sub (js_div (Fin a) (Fin a)) (Fin 1) = Fin 0"
  by (simp add: js_sub_def)

section \<open>The exit policy\<close>

text \<open>
  Claim C7. \<^verbatim>\<open>updateExit\<close> first raises the session high of the position to
  \<^verbatim>\<open>Math.max(high, lastPx)\<close>, and then decides by the first rule that matches, in the
  order trailing stop, profit target, time stop; no rule matching, it returns
  \<^verbatim>\<open>null\<close>. For a position with average cost 10 and session high 12 and the last price
  10.50, whatever its quantity and opening time and whatever the time of the call, the
  trailing stop fires: the drawdown from the high is 12.5%.
\<close>

theorem updateExit_priority:
  "fst (updateExit pos lastPx now) =
     pos\<lparr>Position.high := Math_max (Position.high pos) lastPx\<rparr> \<and>
   snd (updateExit pos lastPx now) =
     (if trail_stop_hit pos lastPx
        then Some \<lparr>ExitDecision.reason = ''trail'', ExitDecision.px = lastPx\<rparr>
      else if profit_target_hit pos lastPx
        then Some \<lparr>ExitDecision.reason = ''target50'', ExitDecision.px = lastPx\<rparr>
      else if time_stop_hit pos lastPx now
        then Some \<lparr>ExitDecision.reason = ''time'', ExitDecision.px = lastPx\<rparr>
      else None) \<and>
   (Position.avg pos = Fin 10 \<and> Position.high pos = Fin 12 \<longrightarrow>
      snd (updateExit pos (Fin 10.5) now) =
        Some \<lparr>ExitDecision.reason = ''trail'', ExitDecision.px = Fin 10.5\<rparr>)"
proof (intro conjI impI)
  show "fst (updateExit pos lastPx now) =
          pos\<lparr>Position.high := Math_max (Position.high pos) lastPx\<rparr>"
    by (simp add: updateExit_def Let_def)
  show "snd (updateExit pos lastPx now) =
     (if trail_stop_hit pos lastPx
        then Some \<lparr>ExitDecision.reason = ''trail'', ExitDecision.px = lastPx\<rparr>
      else if profit_target_hit pos lastPx
        then Some \<lparr>ExitDecision.reason = ''target50'', ExitDecision.px = lastPx\<rparr>
      else if time_stop_hit pos lastPx now
        then Some \<lparr>ExitDecision.reason = ''time'', ExitDecision.px = lastPx\<rparr>
      else None)"
    by (simp add: updateExit_def Let_def trail_stop_hit_def profit_target_hit_def
                  time_stop_hit_def)
  assume a: "Position.avg pos = Fin 10 \<and> Position.high pos = Fin 12"
  then have "js_le (js_sub (js_div (Fin 10.5) (Math_max (Position.high pos) (Fin 10.5))) (Fin 1))
                   (js_neg (Fin 0.12))"
    by (simp add: Math_max_def js_sub_def js_le_def)
  then show "snd (updateExit pos (Fin 10.5) now) =
        Some \<lparr>ExitDecision.reason = ''trail'', ExitDecision.px = Fin 10.5\<rparr>"
    by (simp add: updateExit_def Let_def)
qed

text \<open>The example position, one hour after it was opened: the gain is 5%, so the time
  stop would not fire, and the trailing stop does.\<close>

theorem updateExit_priority_witness:
  "Position.avg example_position = Fin 10 \<and> Position.high example_position = Fin 12 \<and>
   snd (updateExit example_position (Fin 10.5) (Fin 3600000)) =
     Some \<lparr>ExitDecision.reason = ''trail'', ExitDecision.px = Fin 10.5\<rparr>"
proof -
  have h: "Position.avg example_position = Fin 10 \<and> Position.high example_position = Fin 12"
    by (simp add: example_position_def)
  from updateExit_priority [of example_position "Fin 10.5" "Fin 3600000"] h
  show ?thesis by blast
qed

section \<open>The position sizer\<close>

lemma cleanPx_2: "cleanPx (Fin 2) = Fin 2"
  by (simp add: cleanPx_def MIN_PRICE_def TICK_def Math_max_def)

lemma stopPx_2: "stopPx_of (Fin 2) = Fin 1.84"
  by (simp add: stopPx_of_def cleanPx_2 Math_max_def js_sub_def)

lemma perShareRisk_2: "perShareRisk (Fin 2) = Fin 0.16"
  by (simp add: perShareRisk_def cleanPx_2 stopPx_2 Math_max_def js_sub_def)

lemma rawQty_2: "rawQty (Fin 2) (Some (Fin (1 / 100))) (Some (Fin 10000)) = Fin 625"
  by (simp add: rawQty_def riskBudget_def perShareRisk_2)

lemma maxQty_2: "maxQtyByNotional (Fin 2) = Fin 2500"
  by (simp add: maxQtyByNotional_def MAX_NOTIONAL_def cleanPx_2)

lemma sizedQty_2: "sizedQty (Fin 2) (Some (Fin (1 / 100))) (Some (Fin 10000)) = Fin 625"
  by (simp add: sizedQty_def rawQty_2 maxQty_2 cleanPx_2 Math_max_def Math_min_def js_gt_def
                LOT_SIZE_def MIN_NOTIONAL_def)

lemma simulateEntry_2:
  "simulateEntry symb (Fin 2) now (Some (Fin (1 / 100))) (Some (Fin 10000)) =
     \<lparr>Order.side = Buy, Order.symbol = symb, Order.qty = Fin 625, Order.ts = now,
      Order.px = Fin 2.01, Order.stopPx = Some (Fin 1.84),
      Order.notional = Some (Fin 1256.25)\<rparr>"
  by (simp add: simulateEntry_def sizedQty_2 cleanPx_2 stopPx_2 SLIPPAGE_def Math_max_def
                js_le_def js_eq_def Let_def)

lemma simulateEntry_qty_cases:
  "Order.qty (simulateEntry symb px0 now riskPct equity) =
     (if js_le (sizedQty px0 riskPct equity) (Fin 0) then Fin 0
      else sizedQty px0 riskPct equity)"
  by (simp add: simulateEntry_def Let_def)

lemma simulateEntry_not_negative:
  "\<not> js_lt (Order.qty (simulateEntry symb px0 now riskPct equity)) (Fin 0)"
  by (simp add: simulateEntry_qty_cases js_le_def)

text \<open>
  Claim C1, as the code has it. For the price 2.00, risk 1% and equity 10000, and any
  symbol and time, \<^verbatim>\<open>simulateEntry\<close> computes the stop 1.84, the risk per share 0.16
  and the raw quantity 625; the notional cap allows 2500 shares, which is more than 625,
  so the cap does not bind and the order has the quantity 625. For every input, the
  special values included, the quantity of the returned order is not negative.
\<close>

theorem simulateEntry_example:
  "stopPx_of (Fin 2) = Fin 1.84 \<and>
   perShareRisk (Fin 2) = Fin 0.16 \<and>
   rawQty (Fin 2) (Some (Fin 0.01)) (Some (Fin 10000)) = Fin 625 \<and>
   maxQtyByNotional (Fin 2) = Fin 2500 \<and>
   Order.qty (simulateEntry symb (Fin 2) now (Some (Fin 0.01)) (Some (Fin 10000))) = Fin 625 \<and>
   Order.stopPx (simulateEntry symb (Fin 2) now (Some (Fin 0.01)) (Some (Fin 10000))) =
     Some (Fin 1.84) \<and>
   \<not> js_lt (Order.qty (simulateEntry symb' px0 now' riskPct equity)) (Fin 0)"
  using simulateEntry_not_negative [of symb' px0 now' riskPct equity]
  by (simp add: stopPx_2 perShareRisk_2 rawQty_2 maxQty_2 simulateEntry_2)

text \<open>The theorem at the symbol X and the time 0, and at a price that is not a number.\<close>

theorem simulateEntry_example_witness:
  "Order.qty (simulateEntry ''X'' (Fin 2) (Fin 0) (Some (Fin 0.01)) (Some (Fin 10000))) =
     Fin 625 \<and>
   \<not> js_lt (Order.qty (simulateEntry ''X'' NaN (Fin 0) None None)) (Fin 0)"
  using simulateEntry_example [of "''X''" "Fin 0" "''X''" NaN "Fin 0" None None]
  by simp

text \<open>Claim C1 as stated gives the final quantity 2500; the code returns 625.\<close>

theorem simulateEntry_example_qty_not_2500:
  "Order.qty (simulateEntry ''X'' (Fin 2) (Fin 0) (Some (Fin 0.01)) (Some (Fin 10000))) \<noteq>
     Fin 2500"
  by (simp add: simulateEntry_2)

section \<open>The ledger\<close>

lemma fill_sell_no_position:
  assumes "Order.side ord = Sell" and "positions s (Order.symbol ord) = None"
    and "\<not> js_le (Order.qty ord) (Fin 0)" and "Number_isFinite (Order.px ord)"
  shows "fill ord s = s\<lparr>fills := fills s @
            [\<lparr>SimFill.ts = Order.ts ord, SimFill.symbol = Order.symbol ord,
              SimFill.side = Sell, SimFill.px = Order.px ord, SimFill.qty = Order.qty ord,
              SimFill.reason = None\<rparr>]\<rparr>"
  using assms by (simp add: fill_def Let_def)

text \<open>
  Claim C2, on the code. A sell order for one share of X at the price 1, given to a new
  ledger, which has no position: cash, positions and realized P&L stay as they were, and
  the list of fills, empty before, holds a record of the order.
\<close>

theorem fill_sell_without_position_appends_fill:
  "fill (order_of Sell ''X'' (Fin 1) (Fin 0) (Fin 1)) (new_Simulator None) =
     (new_Simulator None)\<lparr>fills :=
        [\<lparr>SimFill.ts = Fin 0, SimFill.symbol = ''X'', SimFill.side = Sell,
          SimFill.px = Fin 1, SimFill.qty = Fin 1, SimFill.reason = None\<rparr>]\<rparr>"
  by (simp add: fill_def order_of_def new_Simulator_def js_le_def js_eq_def Let_def)

text \<open>
  Claim C9. For a symbol with no open position, \<^verbatim>\<open>tryExit\<close> leaves the ledger as it
  is: fills, cash, positions and realized P&L, for every last price and time.
\<close>

theorem tryExit_no_position_noop:
  "positions s symb = None \<Longrightarrow> tryExit symb lastPx now s = s"
  by (simp add: tryExit_def)

text \<open>A new ledger has no position in X.\<close>

theorem tryExit_no_position_noop_witness:
  "positions (new_Simulator None) ''X'' = None \<and>
   tryExit ''X'' (Fin 5) (Fin 0) (new_Simulator None) = new_Simulator None"
proof -
  have h: "positions (new_Simulator None) ''X'' = None" by (simp add: new_Simulator_def)
  from tryExit_no_position_noop [OF h, of "Fin 5" "Fin 0"] h show ?thesis by simp
qed

subsection \<open>Open positions have positive quantities\<close>

lemma fill_keeps:
  assumes "positions_positive s" "Number_isFinite (Order.qty ord)"
  shows "positions_positive (fill ord s)"
proof (cases "js_le (Order.qty ord) (Fin 0) \<or> \<not> Number_isFinite (Order.px ord)")
  case True
  then show ?thesis using assms by (simp add: fill_def)
next
  case False
  then obtain q where q: "Order.qty ord = Fin q" "0 < q"
    using guard_finite assms(2) by blast
  show ?thesis
  proof (cases "Order.side ord")
    case Buy
    show ?thesis
    proof (cases "positions s (Order.symbol ord)")
      case None
      then show ?thesis using False Buy q assms(1)
        by (auto simp: fill_def positions_positive_def Let_def)
    next
      case (Some p)
      then have "js_lt (Fin 0) (Position.qty p)"
        using assms(1) by (simp add: positions_positive_def)
      then have "js_lt (Fin 0) (js_add (Position.qty p) (Fin q))"
        using q js_lt_zero_add by blast
      then show ?thesis using False Buy q assms(1) Some
        by (auto simp: fill_def positions_positive_def Let_def)
    qed
  next
    case Sell
    show ?thesis
    proof (cases "positions s (Order.symbol ord)")
      case None
      then show ?thesis using False Sell q assms(1)
        by (auto simp: fill_def positions_positive_def Let_def)
    next
      case (Some p)
      then have pp: "js_lt (Fin 0) (Position.qty p)"
        using assms(1) by (simp add: positions_positive_def)
      note st = sell_step [OF pp q(2)]
      show ?thesis using False Sell q assms(1) Some st
        by (auto simp: fill_def positions_positive_def Let_def)
    qed
  qed
qed

lemma updateExit_qty: "Position.qty (fst (updateExit p lastPx now)) = Position.qty p"
  by (simp add: updateExit_def Let_def)

lemma tryExit_keeps:
  assumes "positions_positive s"
  shows "positions_positive (tryExit symb lastPx now s)"
proof (cases "positions s symb")
  case None
  then show ?thesis using assms by (simp add: tryExit_def)
next
  case (Some p0)
  obtain p d where pd: "updateExit p0 lastPx now = (p, d)"
    by (cases "updateExit p0 lastPx now")
  then have "Position.qty p = Position.qty p0"
    using updateExit_qty [of p0 lastPx now] by simp
  then have "js_lt (Fin 0) (Position.qty p)"
    using assms Some by (simp add: positions_positive_def)
  then show ?thesis using assms Some pd
    by (cases d) (auto simp: tryExit_def positions_positive_def Let_def)
qed

lemma run_ops_keeps:
  "positions_positive s \<Longrightarrow> \<forall>x \<in> set ops. finite_qty_op x \<Longrightarrow>
   positions_positive (run_ops ops s)"
proof (induction ops arbitrary: s)
  case Nil
  then show ?case by simp
next
  case (Cons x xs)
  have "positions_positive (apply_op x s)"
    using Cons.prems by (cases x) (auto intro: fill_keeps tryExit_keeps)
  then show ?case using Cons by simp
qed

lemma fresh_positive:
  "positions_positive (new_Simulator startingCash)" "positions_positive (reset startingCash s)"
  by (simp_all add: positions_positive_def new_Simulator_def reset_def)

lemma positive_iff:
  "positions_positive s \<Longrightarrow> (symb \<in> dom (positions s)) = js_gt (held_qty s symb) (Fin 0)"
  by (auto simp: positions_positive_def held_qty_def js_gt_def split: option.splits)

lemma positive_not_zero:
  assumes "positions_positive s" "positions s symb = Some p"
  shows "\<not> js_eq (Position.qty p) (Fin 0)"
proof -
  have "js_lt (Fin 0) (Position.qty p)"
    using assms by (simp add: positions_positive_def)
  then show ?thesis by (cases "Position.qty p") (simp_all add: js_eq_def)
qed

text \<open>The orders that the sizer produces with its default risk and equity have a finite
  quantity whenever their price is finite: the guard of \<^verbatim>\<open>fill\<close>, which tests the
  price, passes none of them with a quantity that is not a finite number.\<close>

lemma Math_max_Fin: "Math_max (Fin a) (Fin b) = Fin (max a b)"
  by (simp add: Math_max_def max_def)

lemma Math_min_Fin: "Math_min (Fin a) (Fin b) = Fin (min a b)"
  by (simp add: Math_min_def min_def)

lemma cleanPx_Fin_ge:
  assumes "cleanPx px0 = Fin cv" shows "1 / 2 \<le> cv"
proof (cases "js_mul (Math_round (js_div px0 TICK)) TICK")
  case (Fin b)
  then show ?thesis using assms by (simp add: cleanPx_def MIN_PRICE_def Math_max_Fin)
qed (use assms in \<open>simp_all add: cleanPx_def MIN_PRICE_def Math_max_def\<close>)

lemma sizedQty_finite:
  assumes "cleanPx px0 = Fin cv"
  shows "\<exists>q. sizedQty px0 None None = Fin q"
proof -
  have cv: "1 / 2 \<le> cv" using assms by (rule cleanPx_Fin_ge)
  have s: "stopPx_of px0 = Fin (max (cv * 0.92) (cv - 0.5))"
    by (simp add: stopPx_of_def assms js_sub_def Math_max_Fin)
  have r: "perShareRisk px0 = Fin (max (cv - max (cv * 0.92) (cv - 0.5)) 0.01)"
    by (simp add: perShareRisk_def assms s js_sub_def Math_max_Fin)
  have "(0::real) < max (cv - max (cv * 0.92) (cv - 0.5)) 0.01"
    by (simp add: less_max_iff_disj)
  then have "max (cv - max (cv * 0.92) (cv - 0.5)) 0.01 \<noteq> (0::real)"
    by simp
  then have rq: "\<exists>a. rawQty px0 None None = Fin a"
    by (simp add: rawQty_def riskBudget_def r)
  have mq: "\<exists>b. maxQtyByNotional px0 = Fin b"
    using cv by (simp add: maxQtyByNotional_def MAX_NOTIONAL_def assms)
  from rq mq obtain a b where ab: "rawQty px0 None None = Fin a" "maxQtyByNotional px0 = Fin b"
    by blast
  show ?thesis using cv
    by (simp add: sizedQty_def ab assms Math_max_Fin Math_min_Fin LOT_SIZE_def MIN_NOTIONAL_def Let_def)
qed

lemma js_add_finite: "Number_isFinite (js_add x y) \<Longrightarrow> \<exists>a. x = Fin a"
  by (cases x; cases y) simp_all

lemma simulateEntry_finite_qty:
  assumes "Number_isFinite (Order.px (simulateEntry symb px0 now None None))"
  shows "Number_isFinite (Order.qty (simulateEntry symb px0 now None None))"
proof (cases "js_le (sizedQty px0 None None) (Fin 0)")
  case True
  then show ?thesis by (simp add: simulateEntry_def)
next
  case False
  then have "Number_isFinite (js_add (cleanPx px0) (SLIPPAGE px0))"
    using assms by (simp add: simulateEntry_def Let_def)
  then obtain cv where "cleanPx px0 = Fin cv" using js_add_finite by blast
  then obtain q where "sizedQty px0 None None = Fin q" using sizedQty_finite by blast
  then show ?thesis using False by (simp add: simulateEntry_def Let_def)
qed

text \<open>
  Claim C6, as the code has it. Start from a new ledger or from one that was reset, and
  run any sequence of \<^verbatim>\<open>fill\<close> and \<^verbatim>\<open>tryExit\<close> in which the quantity of every order
  is a finite number. Then a symbol is a key of the positions dictionary exactly when the
  quantity held of it is strictly positive, and no stored position has the quantity zero.
\<close>

theorem ledger_positions_iff_positive:
  assumes "s0 = new_Simulator startingCash \<or> s0 = reset startingCash s"
    and "\<forall>x \<in> set ops. finite_qty_op x"
  shows "(symb \<in> dom (positions (run_ops ops s0))) =
           js_gt (held_qty (run_ops ops s0) symb) (Fin 0) \<and>
         (\<forall>p. positions (run_ops ops s0) symb = Some p \<longrightarrow>
                \<not> js_eq (Position.qty p) (Fin 0))"
proof -
  have "positions_positive s0"
    using assms(1) fresh_positive by auto
  then have "positions_positive (run_ops ops s0)"
    using assms(2) run_ops_keeps by blast
  then show ?thesis
    using positive_iff positive_not_zero by blast
qed

lemma example_ops_finite: "\<forall>x \<in> set example_ops. finite_qty_op x"
  by (simp add: example_ops_def order_of_def)

lemma example_ops_buy_sell:
  "positions (run_ops (take 2 example_ops) (new_Simulator None)) =
     [''X'' \<mapsto> \<lparr>Position.symbol = ''X'', Position.qty = Fin 60, Position.avg = Fin 10,
               Position.openTs = Fin 0, Position.high = Fin 12\<rparr>]"
  by (simp add: example_ops_def order_of_def new_Simulator_def fill_def js_le_def js_eq_def
                js_sub_def Math_min_def Math_max_def Let_def)

lemma example_ops_all: "positions (run_ops example_ops (new_Simulator None)) = Map.empty"
  by (simp add: example_ops_def order_of_def new_Simulator_def fill_def tryExit_def
                updateExit_def js_le_def js_ge_def js_eq_def js_sub_def Math_min_def
                Math_max_def Let_def)

text \<open>The example session buys 100 shares, sells 40, evaluates the exit rules and sells
  the remaining 60: all quantities are finite; 60 shares are held after the first sale and
  none at the end.\<close>

theorem ledger_positions_iff_positive_witness:
  "list_all finite_qty_op example_ops \<and>
   ((''X'' \<in> dom (positions (run_ops example_ops (new_Simulator None)))) =
      js_gt (held_qty (run_ops example_ops (new_Simulator None)) ''X'') (Fin 0)) \<and>
   ((''X'' \<in> dom (positions (run_ops (take 2 example_ops) (new_Simulator None)))) =
      js_gt (held_qty (run_ops (take 2 example_ops) (new_Simulator None)) ''X'') (Fin 0)) \<and>
   held_qty (run_ops (take 2 example_ops) (new_Simulator None)) ''X'' = Fin 60 \<and>
   held_qty (run_ops example_ops (new_Simulator None)) ''X'' = Fin 0"
proof -
  have f: "\<forall>x \<in> set example_ops. finite_qty_op x"
    by (rule example_ops_finite)
  then have f2: "\<forall>x \<in> set (take 2 example_ops). finite_qty_op x"
    by (meson in_set_takeD)
  have s: "new_Simulator None = new_Simulator None \<or>
           new_Simulator None = reset None (new_Simulator None)"
    by simp
  note a = ledger_positions_iff_positive [OF s f, of "''X''"]
  note b = ledger_positions_iff_positive [OF s f2, of "''X''"]
  have c: "held_qty (run_ops (take 2 example_ops) (new_Simulator None)) ''X'' = Fin 60"
    by (simp add: example_ops_buy_sell held_qty_def)
  have d: "held_qty (run_ops example_ops (new_Simulator None)) ''X'' = Fin 0"
    by (simp add: example_ops_all held_qty_def)
  from f a b c d show ?thesis by (simp add: list_all_iff)
qed

text \<open>
  Claim C6 as stated, for every sequence of operations, fails for a buy order whose
  quantity is \<^verbatim>\<open>NaN\<close>: the guard of \<^verbatim>\<open>fill\<close> rejects a quantity only if it is at most
  zero, and \<^verbatim>\<open>NaN <= 0\<close> is false. The position is stored with the quantity \<^verbatim>\<open>NaN\<close>,
  which is not positive.
\<close>

theorem ledger_nan_quantity_counterexample:
  "''X'' \<in> dom (positions (run_ops [OpFill (order_of Buy ''X'' NaN (Fin 0) (Fin 1))]
                                     (new_Simulator None))) \<and>
   \<not> js_gt (held_qty (run_ops [OpFill (order_of Buy ''X'' NaN (Fin 0) (Fin 1))]
                               (new_Simulator None)) ''X'') (Fin 0)"
  by (simp add: fill_def order_of_def new_Simulator_def held_qty_def js_le_def js_eq_def
                js_gt_def Let_def)

section \<open>The confirmation gate\<close>

lemma volZ_of_local:
  "volumeWindows st symb = volumeWindows st' symb \<Longrightarrow> volZ_of W st symb = volZ_of W st' symb"
  by (simp add: volZ_of_def win_of_def)

lemma vwapPx_local:
  "vwapAccumulators st symb = vwapAccumulators st' symb \<Longrightarrow>
   vwapPx st symb priceNow = vwapPx st' symb priceNow"
  by (simp add: vwapPx_def)

lemma ref_of_local:
  "vwapAccumulators st symb = vwapAccumulators st' symb \<Longrightarrow>
   referencePrices st symb = referencePrices st' symb \<Longrightarrow>
   ref_of st symb priceNow = ref_of st' symb priceNow"
  using vwapPx_local [of st symb st' priceNow]
  by (cases "referencePrices st' symb") (simp_all add: ref_of_def)

lemma getConfirm_local:
  assumes "volumeWindows st symb = volumeWindows st' symb"
    and "vwapAccumulators st symb = vwapAccumulators st' symb"
    and "referencePrices st symb = referencePrices st' symb"
  shows "fst (getConfirm cfg W t symb priceNow st) = fst (getConfirm cfg W t symb priceNow st')"
  using volZ_of_local [OF assms(1), of W] vwapPx_local [OF assms(2), of priceNow]
        ref_of_local [OF assms(2) assms(3), of priceNow]
  by (simp add: getConfirm_def Let_def)

text \<open>
  Claim C4. For every symbol and current price, the pass flag of the signal is
  (volZ \<ge> VOL_Z_MIN and ret1m \<ge> RET_1M_MIN) or (vwapDev \<ge> VWAP_DEV_MIN and
  volZ \<ge> VOL_Z_MIN - 0.5), on the three metrics of the same signal: the z-score of the
  last volume in the window of the symbol, the return against its reference price and
  the deviation from its VWAP price. The signal is computed from the rolling window, the
  VWAP accumulator and the reference price of that symbol: two states that agree on the
  three give the same signal.
\<close>

theorem getConfirm_pass_formula:
  "pass (fst (getConfirm cfg W t symb priceNow st)) =
     ((js_ge (volZ (fst (getConfirm cfg W t symb priceNow st))) (VOL_Z_MIN cfg) \<and>
       js_ge (ret1m (fst (getConfirm cfg W t symb priceNow st))) (RET_1M_MIN cfg)) \<or>
      (js_ge (vwapDev (fst (getConfirm cfg W t symb priceNow st))) (VWAP_DEV_MIN cfg) \<and>
       js_ge (volZ (fst (getConfirm cfg W t symb priceNow st)))
             (js_sub (VOL_Z_MIN cfg) (Fin 0.5)))) \<and>
   volZ (fst (getConfirm cfg W t symb priceNow st)) = volZ_of W st symb \<and>
   ret1m (fst (getConfirm cfg W t symb priceNow st)) =
     js_sub (js_div priceNow (ref_of st symb priceNow)) (Fin 1) \<and>
   vwapDev (fst (getConfirm cfg W t symb priceNow st)) =
     js_sub (js_div priceNow (vwapPx st symb priceNow)) (Fin 1) \<and>
   (volumeWindows st symb = volumeWindows st' symb \<and>
    vwapAccumulators st symb = vwapAccumulators st' symb \<and>
    referencePrices st symb = referencePrices st' symb \<longrightarrow>
    fst (getConfirm cfg W t symb priceNow st) = fst (getConfirm cfg W t symb priceNow st'))"
proof (intro conjI)
  show "volZ (fst (getConfirm cfg W t symb priceNow st)) = volZ_of W st symb"
    by (simp add: getConfirm_def Let_def)
  show "ret1m (fst (getConfirm cfg W t symb priceNow st)) =
          js_sub (js_div priceNow (ref_of st symb priceNow)) (Fin 1)"
    by (simp add: getConfirm_def Let_def)
  show "vwapDev (fst (getConfirm cfg W t symb priceNow st)) =
          js_sub (js_div priceNow (vwapPx st symb priceNow)) (Fin 1)"
    by (simp add: getConfirm_def Let_def)
  show "pass (fst (getConfirm cfg W t symb priceNow st)) =
     ((js_ge (volZ (fst (getConfirm cfg W t symb priceNow st))) (VOL_Z_MIN cfg) \<and>
       js_ge (ret1m (fst (getConfirm cfg W t symb priceNow st))) (RET_1M_MIN cfg)) \<or>
      (js_ge (vwapDev (fst (getConfirm cfg W t symb priceNow st))) (VWAP_DEV_MIN cfg) \<and>
       js_ge (volZ (fst (getConfirm cfg W t symb priceNow st)))
             (js_sub (VOL_Z_MIN cfg) (Fin 0.5))))"
    by (simp add: getConfirm_def Let_def)
  show "volumeWindows st symb = volumeWindows st' symb \<and>
    vwapAccumulators st symb = vwapAccumulators st' symb \<and>
    referencePrices st symb = referencePrices st' symb \<longrightarrow>
    fst (getConfirm cfg W t symb priceNow st) = fst (getConfirm cfg W t symb priceNow st')"
    using getConfirm_local by blast
qed

lemma example_market_eq:
  "example_market =
     \<lparr>volumeWindows =
        [''X'' \<mapsto> \<lparr>window_values = [Fin 100, Fin 200, Fin 300], capacity = Fin 60\<rparr>],
      vwapAccumulators = [''X'' \<mapsto> \<lparr>priceVolume = Fin 6800, volume = Fin 600\<rparr>],
      referencePrices = [''X'' \<mapsto> Fin 10]\<rparr>"
  by (simp add: example_market_def onAgg_def setRef_def empty_MarketState_def
                new_RollingWindow_def RollingWindow_push_def js_gt_def Let_def)

lemma sqrt_10000: "sqrt 10000 = 100"
  by (rule real_sqrt_unique) simp_all

lemma example_mean:
  "RollingWindow_mean \<lparr>window_values = [Fin 100, Fin 200, Fin 300], capacity = Fin 60\<rparr> =
     Fin 200"
  by (simp add: RollingWindow_mean_def)

lemma example_std:
  "RollingWindow_std \<lparr>window_values = [Fin 100, Fin 200, Fin 300], capacity = Fin 60\<rparr> =
     Fin 100"
  by (simp add: RollingWindow_std_def example_mean js_sub_def sqrt_10000 Let_def)

lemma example_volZ: "volZ_of (Fin 60) example_market ''X'' = Fin 1"
  by (simp add: volZ_of_def win_of_def example_market_eq example_mean example_std
                RollingWindow_last_def js_gt_def js_sub_def Let_def)

lemma example_signal:
  "fst (getConfirm example_cfg (Fin 60) t ''X'' (Fin 12) example_market) =
     \<lparr>ConfirmSignal.symbol = ''X'', ConfirmSignal.ts = t, ConfirmSignal.price = Fin 12,
      ConfirmSignal.volZ = Fin 1, ConfirmSignal.ret1m = Fin (1 / 5),
      ConfirmSignal.vwapDev = Fin (1 / 17), ConfirmSignal.pass = True\<rparr>"
  by (simp add: getConfirm_def example_volZ Let_def)
     (simp add: example_market_eq vwapPx_def ref_of_def js_gt_def js_sub_def js_ge_def
                js_le_def js_eq_def example_cfg_def)

text \<open>The example state after three bars of X (volumes 100, 200, 300; the z-score of the
  last is 1, the price 12 is 20% above the reference 10), and the same state after a bar
  of another symbol.\<close>

theorem getConfirm_pass_formula_witness:
  "pass (fst (getConfirm example_cfg (Fin 60) (Fin 0) ''X'' (Fin 12) example_market)) \<and>
   fst (getConfirm example_cfg (Fin 60) (Fin 0) ''X'' (Fin 12) example_market) =
   fst (getConfirm example_cfg (Fin 60) (Fin 0) ''X'' (Fin 12)
          (onAgg (Fin 60) ''Y'' (Fin 5) (Fin 7) example_market))"
proof -
  have "volumeWindows example_market ''X'' =
          volumeWindows (onAgg (Fin 60) ''Y'' (Fin 5) (Fin 7) example_market) ''X'' \<and>
        vwapAccumulators example_market ''X'' =
          vwapAccumulators (onAgg (Fin 60) ''Y'' (Fin 5) (Fin 7) example_market) ''X'' \<and>
        referencePrices example_market ''X'' =
          referencePrices (onAgg (Fin 60) ''Y'' (Fin 5) (Fin 7) example_market) ''X''"
    by (simp add: onAgg_def Let_def)
  with getConfirm_pass_formula [of example_cfg "Fin 60" "Fin 0" "''X''" "Fin 12" example_market
         "onAgg (Fin 60) ''Y'' (Fin 5) (Fin 7) example_market"]
  have e: "fst (getConfirm example_cfg (Fin 60) (Fin 0) ''X'' (Fin 12) example_market) =
           fst (getConfirm example_cfg (Fin 60) (Fin 0) ''X'' (Fin 12)
                  (onAgg (Fin 60) ''Y'' (Fin 5) (Fin 7) example_market))"
    by blast
  have "pass (fst (getConfirm example_cfg (Fin 60) (Fin 0) ''X'' (Fin 12) example_market))"
    by (simp add: example_signal)
  with e show ?thesis by blast
qed

text \<open>
  Claim C10. A call of \<^verbatim>\<open>getConfirm\<close> leaves the three dictionaries of market state
  as they are, for every symbol of them; a second call with the same symbol and price gives
  the same volZ, ret1m, vwapDev and pass as the first (the time stamps of the two signals
  come from the clock and may differ).
\<close>

theorem getConfirm_read_only:
  "snd (getConfirm cfg W t1 symb priceNow st) = st \<and>
   (let (r1, st1) = getConfirm cfg W t1 symb priceNow st;
        (r2, st2) = getConfirm cfg W t2 symb priceNow st1
    in st2 = st \<and> volZ r2 = volZ r1 \<and> ret1m r2 = ret1m r1 \<and>
       vwapDev r2 = vwapDev r1 \<and> pass r2 = pass r1)"
  by (simp add: getConfirm_def Let_def)

text \<open>Two calls on the example state, at the clock readings 0 and 1.\<close>

theorem getConfirm_read_only_witness:
  "snd (getConfirm example_cfg (Fin 60) (Fin 0) ''X'' (Fin 12) example_market) = example_market \<and>
   volZ (fst (getConfirm example_cfg (Fin 60) (Fin 1) ''X'' (Fin 12)
           (snd (getConfirm example_cfg (Fin 60) (Fin 0) ''X'' (Fin 12) example_market)))) =
   Fin 1"
  using getConfirm_read_only [of example_cfg "Fin 60" "Fin 0" "''X''" "Fin 12" example_market "Fin 1"]
  by (simp add: example_signal)

text \<open>
  Claim C8, as the code has it. For a symbol whose VWAP accumulator has zero accumulated
  volume, or none, and a current price that is a finite number other than zero, the VWAP
  price falls back to the current price and \<^verbatim>\<open>getConfirm\<close> returns vwapDev = 0; and
  unless the reference price of the symbol was set to zero, no division of the call has
  the divisor zero.
\<close>

theorem getConfirm_zero_volume:
  assumes "zero_accumulated_volume st symb" and "priceNow = Fin a" and "a \<noteq> 0"
  shows "vwapPx st symb priceNow = priceNow \<and>
         vwapDev (fst (getConfirm cfg W t symb priceNow st)) = Fin 0 \<and>
         (referencePrices st symb \<noteq> Some (Fin 0) \<longrightarrow>
            Fin 0 \<notin> set (getConfirm_divisors W symb priceNow st))"
proof (intro conjI impI)
  show v: "vwapPx st symb priceNow = priceNow"
    using assms(1)
    by (auto simp: zero_accumulated_volume_def vwapPx_def js_gt_def split: option.splits)
  show "vwapDev (fst (getConfirm cfg W t symb priceNow st)) = Fin 0"
  proof -
    have "js_sub (js_div priceNow (vwapPx st symb priceNow)) (Fin 1) = Fin 0"
      unfolding v using assms(2,3) self_div by simp
    then show ?thesis by (simp add: getConfirm_def Let_def)
  qed
  assume r: "referencePrices st symb \<noteq> Some (Fin 0)"
  have 1: "Fin 0 \<notin> set (mean_divisors w)" for w
    by (simp add: mean_divisors_def)
  have 2: "Fin 0 \<notin> set (std_divisors w)" for w
    by (auto simp: std_divisors_def mean_divisors_def js_sub_def)
  have 4: "ref_of st symb priceNow \<noteq> Fin 0"
    using r assms(2,3) v by (auto simp: ref_of_def split: option.splits)
  show "Fin 0 \<notin> set (getConfirm_divisors W symb priceNow st)"
    using 1 2 js_gt_irrefl 4 v assms(2,3)
    by (auto simp: getConfirm_divisors_def Let_def split: option.splits if_splits)
qed

lemma zero_volume_market_eq:
  "zero_volume_market =
     \<lparr>volumeWindows = [''X'' \<mapsto> \<lparr>window_values = [Fin 0], capacity = Fin 60\<rparr>],
      vwapAccumulators = [''X'' \<mapsto> \<lparr>priceVolume = Fin 0, volume = Fin 0\<rparr>],
      referencePrices = Map.empty\<rparr>"
  by (simp add: zero_volume_market_def onAgg_def empty_MarketState_def new_RollingWindow_def
                RollingWindow_push_def js_gt_def Let_def)

text \<open>After one bar of volume 0 the accumulated volume of X is zero; the symbol Y has no
  accumulator.\<close>

theorem getConfirm_zero_volume_witness:
  "zero_accumulated_volume zero_volume_market ''X'' \<and>
   vwapDev (fst (getConfirm example_cfg (Fin 60) (Fin 0) ''X'' (Fin 10) zero_volume_market)) =
     Fin 0 \<and>
   Fin 0 \<notin> set (getConfirm_divisors (Fin 60) ''X'' (Fin 10) zero_volume_market)"
proof -
  have h: "zero_accumulated_volume zero_volume_market ''X''"
    by (simp add: zero_accumulated_volume_def zero_volume_market_eq)
  have r: "referencePrices zero_volume_market ''X'' \<noteq> Some (Fin 0)"
    by (simp add: zero_volume_market_eq)
  from getConfirm_zero_volume [OF h, of "Fin 10" 10 example_cfg "Fin 60" "Fin 0"] h r
  show ?thesis by simp
qed

text \<open>
  Claim C8 as stated, for every current price, fails at the price 0: the VWAP price falls
  back to 0, the deviation is \<^verbatim>\<open>0 / 0 - 1\<close>, which is \<^verbatim>\<open>NaN\<close>, and the divisor is
  zero. It fails also at an infinite price, and the return divides by zero when the
  reference price was set to 0.
\<close>

theorem getConfirm_zero_price_counterexample:
  "zero_accumulated_volume zero_volume_market ''X'' \<and>
   vwapDev (fst (getConfirm example_cfg (Fin 60) (Fin 0) ''X'' (Fin 0) zero_volume_market)) =
     NaN \<and>
   Fin 0 \<in> set (getConfirm_divisors (Fin 60) ''X'' (Fin 0) zero_volume_market) \<and>
   vwapDev (fst (getConfirm example_cfg (Fin 60) (Fin 0) ''X'' PosInf zero_volume_market)) =
     NaN \<and>
   zero_accumulated_volume (setRef ''X'' (Fin 0) zero_volume_market) ''X'' \<and>
   Fin 0 \<in> set (getConfirm_divisors (Fin 60) ''X'' (Fin 10)
                    (setRef ''X'' (Fin 0) zero_volume_market))"
  by (simp add: zero_accumulated_volume_def zero_volume_market_eq getConfirm_def
                getConfirm_divisors_def vwapPx_def ref_of_def setRef_def js_gt_def js_sub_def
                inf_of_sign_def Let_def)

section \<open>The classifier\<close>

lemma classify_item_fields:
  "klass (classify_item rt it) = fst (classifyOne rt it)"
  "ClassifiedItem.score (classify_item rt it) = snd (classifyOne rt it)"
  by (simp_all add: classify_item_def RawItem.defs ClassifiedItem.defs)

lemma classifyOne_guarded:
  assumes "rx_test rt ''PAT.lawFirmPR'' (classify_text it) \<or>
           rx_test rt ''PAT.awardsPR'' (classify_text it)"
  shows "classifyOne rt it = (''OTHER'', Fin 0)"
  using assms by (auto simp: classifyOne_def Let_def)

text \<open>
  Claim C5. When the normalized text of an item (title, line feed, summary) matches the
  law-firm pattern or the awards pattern, \<^verbatim>\<open>classifyOne\<close> returns the class
  \<^verbatim>\<open>OTHER\<close> with the raw score 0, and so does \<^verbatim>\<open>classify\<close> for the item, whatever
  the other patterns answer on the text.
\<close>

theorem classify_hard_guards:
  assumes "rx_test rt ''PAT.lawFirmPR'' (classify_text it) \<or>
           rx_test rt ''PAT.awardsPR'' (classify_text it)"
  shows "classifyOne rt it = (''OTHER'', Fin 0) \<and>
         map klass (classify rt [it]) = [''OTHER''] \<and>
         map ClassifiedItem.score (classify rt [it]) = [Fin 0]"
  using classifyOne_guarded [OF assms]
  by (simp add: classify_def classify_item_fields)

lemma classify_text_winner:
  "classify_text (raw_item (Some (js ''winner'')) None) = js ''winner'' @ [10]"
  by (simp add: classify_text_def raw_item_def normalize_text_def js_trim_def js_def
                is_js_space_def ascii_quotes_def)

lemma classify_text_class_action:
  "classify_text (raw_item (Some (js ''class action'')) None) = js ''class action'' @ [10]"
  by (simp add: classify_text_def raw_item_def normalize_text_def js_trim_def js_def
                is_js_space_def ascii_quotes_def)

text \<open>An item titled "winner" matches the awards pattern, one titled "class action" the
  law-firm pattern.\<close>

theorem classify_hard_guards_witness:
  "rx_test guard_runtime ''PAT.awardsPR'' (classify_text (raw_item (Some (js ''winner'')) None)) \<and>
   classifyOne guard_runtime (raw_item (Some (js ''winner'')) None) = (''OTHER'', Fin 0) \<and>
   rx_test guard_runtime ''PAT.lawFirmPR''
     (classify_text (raw_item (Some (js ''class action'')) None)) \<and>
   classifyOne guard_runtime (raw_item (Some (js ''class action'')) None) = (''OTHER'', Fin 0)"
proof -
  have a: "rx_test guard_runtime ''PAT.awardsPR''
             (classify_text (raw_item (Some (js ''winner'')) None))"
    by (simp add: classify_text_winner guard_runtime_def)
  have l: "rx_test guard_runtime ''PAT.lawFirmPR''
             (classify_text (raw_item (Some (js ''class action'')) None))"
    by (simp add: classify_text_class_action guard_runtime_def)
  from classify_hard_guards [of guard_runtime "raw_item (Some (js ''winner'')) None"] a
  have 1: "classifyOne guard_runtime (raw_item (Some (js ''winner'')) None) = (''OTHER'', Fin 0)"
    by blast
  from classify_hard_guards [of guard_runtime "raw_item (Some (js ''class action'')) None"] l
  have 2: "classifyOne guard_runtime (raw_item (Some (js ''class action'')) None) =
             (''OTHER'', Fin 0)"
    by blast
  from a l 1 2 show ?thesis by blast
qed

section \<open>The scorer\<close>

lemma generic_boosters_cong:
  assumes "marketCap a = marketCap b" and "symbols_count a = symbols_count b"
  shows "generic_boosters rt a blob s = generic_boosters rt b blob s"
  using assms by (simp add: generic_boosters_def)

lemma score_value_cong:
  assumes "klass a = klass b" and "blob_of a = blob_of b" and "url a = url b"
    and "marketCap a = marketCap b" and "symbols_count a = symbols_count b"
  shows "score_value rt a = score_value rt b"
  unfolding score_value_def
  by (simp only: assms(1,2,3) generic_boosters_cong [OF assms(4,5)])

lemma score_item_keeps:
  "klass (score_item rt it) = klass it"
  "blob_of (score_item rt it) = blob_of it"
  "url (score_item rt it) = url it"
  "marketCap (score_item rt it) = marketCap it"
  "symbols_count (score_item rt it) = symbols_count it"
  by (simp_all add: score_item_def blob_of_def symbols_count_def)

lemma score_value_rescored: "score_value rt (score_item rt it) = score_value rt it"
  by (rule score_value_cong) (rule score_item_keeps)+

lemma score_item_idem: "score_item rt (score_item rt it) = score_item rt it"
proof -
  have "score_item rt (score_item rt it) =
          (score_item rt it)\<lparr>ClassifiedItem.score := score_value rt it\<rparr>"
    by (simp add: score_item_def [of rt "score_item rt it"] score_value_rescored)
  then show ?thesis by (simp add: score_item_def)
qed

text \<open>
  Claim C3, as the code has it. The score is a function of the classified item, with no
  other state: two items with the same class, the same title-plus-summary text, the same
  URL, the same market capitalization and the same number of symbols get the same score;
  the score an item already carries is not read, so scoring a scored item gives the same
  score again, and scoring a batch twice gives what scoring it once gives.
\<close>

theorem score_function_of_item:
  "(klass a = klass b \<and> blob_of a = blob_of b \<and> url a = url b \<and>
    marketCap a = marketCap b \<and> symbols_count a = symbols_count b \<longrightarrow>
    score_value rt a = score_value rt b) \<and>
   score_value rt (score_item rt it) = score_value rt it \<and>
   score rt (score rt items) = score rt items"
proof (intro conjI impI)
  assume "klass a = klass b \<and> blob_of a = blob_of b \<and> url a = url b \<and>
          marketCap a = marketCap b \<and> symbols_count a = symbols_count b"
  then show "score_value rt a = score_value rt b"
    using score_value_cong by blast
next
  show "score_value rt (score_item rt it) = score_value rt it"
    by (rule score_value_rescored)
next
  show "score rt (score rt items) = score rt items"
    by (simp add: score_def score_item_idem)
qed

lemma quiet_steps:
  "early_caps quiet_runtime blob s = s"
  "dilutive_cap quiet_runtime blob s = s"
  "approvals_split quiet_runtime label blob s = s"
  "process_guards quiet_runtime blob s = s"
  "mna_specifics quiet_runtime label blob s = s"
  "gov_followon_cap quiet_runtime label blob s = s"
  "index_inclusion quiet_runtime label blob s = s"
  "generic_results quiet_runtime blob s = s"
  "add_if (rx_test quiet_runtime name blob) k s = s"
  by (simp_all add: early_caps_def dilutive_cap_def approvals_split_def process_guards_def
                    mna_specifics_def gov_followon_cap_def index_inclusion_def
                    generic_results_def cap_if_def add_if_def sub_if_def quiet_runtime_def)

lemma quiet_label_steps:
  "label \<noteq> ''PIVOTAL_TRIAL_SUCCESS'' \<Longrightarrow> bio_nuance quiet_runtime label blob s = s"
  "label \<noteq> ''RESTRUCTURING_OR_FINANCING'' \<Longrightarrow> crypto_treasury quiet_runtime label blob s = s"
  by (simp_all add: bio_nuance_def crypto_treasury_def quiet_runtime_def)

lemma quiet_wire_modulation:
  "wire_modulation quiet_runtime label isWire blob s =
     (if wireSensitive label then (if isWire then js_add s (Fin 0.04) else Math_min s (Fin 0.48))
      else s)"
  by (simp add: wire_modulation_def quiet_runtime_def)

lemma quiet_score_value:
  assumes "klass it \<noteq> ''PIVOTAL_TRIAL_SUCCESS''" and "klass it \<noteq> ''RESTRUCTURING_OR_FINANCING''"
  shows "score_value quiet_runtime it =
     Math_max (Fin 0) (Math_min (Fin 1)
       (generic_boosters quiet_runtime it (blob_of it)
          (if wireSensitive (klass it)
             then (if isWirePR_score quiet_runtime (url it) (blob_of it)
                     then js_add (baseline_of (klass it)) (Fin 0.04)
                   else Math_min (baseline_of (klass it)) (Fin 0.48))
           else baseline_of (klass it))))"
proof -
  have m: "\<not> rx_test quiet_runtime ''RX_MISINFO'' (blob_of it)"
    by (simp add: quiet_runtime_def)
  show ?thesis
    unfolding score_value_def Let_def
    by (simp only: m if_False quiet_steps quiet_label_steps(1) [OF assms(1)]
                   quiet_label_steps(2) [OF assms(2)] quiet_wire_modulation)
qed


lemma quiet_generic_boosters:
  "generic_boosters quiet_runtime it blob s =
     add_if (symbols_count it = 1) 0.03
       (add_if (js_gt (case marketCap it of None \<Rightarrow> Fin 0 | Some m \<Rightarrow> m) (Fin 0) \<and>
                (case marketCap it of None \<Rightarrow> False | Some m \<Rightarrow> js_lt m (Fin 1000000000)))
               0.14 s)"
  by (simp add: generic_boosters_def quiet_runtime_def add_if_def)

lemma baseline_values:
  "baseline_of ''OTHER'' = Fin 0.2" "baseline_of ''FDA_MARKETING_AUTH'' = Fin 0.7"
  by (simp_all add: baseline_of_def BASELINE_def)

lemma wireSensitive_values:
  "\<not> wireSensitive ''OTHER''" "wireSensitive ''FDA_MARKETING_AUTH''"
  by (simp_all add: wireSensitive_def)

lemma quiet_score_other:
  "score_value quiet_runtime (classified_item ''OTHER'' t0 b0 u0 cap syms raw) =
     Math_max (Fin 0) (Math_min (Fin 1)
       (add_if ((case syms of None \<Rightarrow> 0 | Some l \<Rightarrow> length l) = 1) 0.03
          (add_if (js_gt (case cap of None \<Rightarrow> Fin 0 | Some m \<Rightarrow> m) (Fin 0) \<and>
                   (case cap of None \<Rightarrow> False | Some m \<Rightarrow> js_lt m (Fin 1000000000)))
                  0.14 (Fin 0.2))))"
proof -
  have k: "klass (classified_item ''OTHER'' t0 b0 u0 cap syms raw) = ''OTHER''"
    by (simp add: classified_item_def)
  have c: "marketCap (classified_item ''OTHER'' t0 b0 u0 cap syms raw) = cap"
    "symbols_count (classified_item ''OTHER'' t0 b0 u0 cap syms raw) =
       (case syms of None \<Rightarrow> 0 | Some l \<Rightarrow> length l)"
    by (simp_all add: classified_item_def symbols_count_def)
  have "score_value quiet_runtime (classified_item ''OTHER'' t0 b0 u0 cap syms raw) =
     Math_max (Fin 0) (Math_min (Fin 1)
       (generic_boosters quiet_runtime (classified_item ''OTHER'' t0 b0 u0 cap syms raw)
          (blob_of (classified_item ''OTHER'' t0 b0 u0 cap syms raw)) (Fin 0.2)))"
    by (subst quiet_score_value) (simp_all add: k wireSensitive_values baseline_values)
  then show ?thesis
    by (simp only: quiet_generic_boosters c)
qed

lemma quiet_score_fda:
  "score_value quiet_runtime (classified_item ''FDA_MARKETING_AUTH'' t0 b0 u0 None None raw) =
     (if isWirePR_score quiet_runtime u0
           (blob_of (classified_item ''FDA_MARKETING_AUTH'' t0 b0 u0 None None raw))
        then Fin 0.74 else Fin 0.48)"
proof -
  have k: "klass (classified_item ''FDA_MARKETING_AUTH'' t0 b0 u0 None None raw) =
             ''FDA_MARKETING_AUTH''"
    "url (classified_item ''FDA_MARKETING_AUTH'' t0 b0 u0 None None raw) = u0"
    "marketCap (classified_item ''FDA_MARKETING_AUTH'' t0 b0 u0 None None raw) = None"
    "symbols_count (classified_item ''FDA_MARKETING_AUTH'' t0 b0 u0 None None raw) = 0"
    by (simp_all add: classified_item_def symbols_count_def)
  show ?thesis
    by (subst quiet_score_value)
       (simp_all add: k wireSensitive_values baseline_values quiet_generic_boosters add_if_def
                      Math_max_def Math_min_def js_gt_def)
qed

lemma blob_a:
  "blob_of (classified_item k (Some (js ''a'')) None u0 cap syms raw) = js ''a'' @ [32]"
  by (simp add: blob_of_def classified_item_def)

lemma quiet_wire_url:
  "isWirePR_score quiet_runtime (Some (js ''https://www.prnewswire.com/a'')) (js ''a'' @ [32])"
  by (simp add: isWirePR_score_def wire_host_def quiet_runtime_def WIRE_HOSTS_def
                ascii_lower_def js_def)

lemma quiet_no_url: "\<not> isWirePR_score quiet_runtime None (js ''a'' @ [32])"
  by (simp add: isWirePR_score_def wire_host_def quiet_runtime_def WIRE_TOKENS_def
                ascii_lower_def js_def)

text \<open>Two items of the class \<^verbatim>\<open>OTHER\<close> whose titles and summaries differ and whose
  texts are both "a b" followed by a space, with different identities of the raw
  score.\<close>

theorem score_function_of_item_witness:
  "blob_of (classified_item ''OTHER'' (Some (js ''a b'')) None None None None (Fin 0)) =
   blob_of (classified_item ''OTHER'' (Some (js ''a'')) (Some (js ''b '')) None None None (Fin 7)) \<and>
   score_value quiet_runtime
     (classified_item ''OTHER'' (Some (js ''a b'')) None None None None (Fin 0)) =
   score_value quiet_runtime
     (classified_item ''OTHER'' (Some (js ''a'')) (Some (js ''b '')) None None None (Fin 7))"
proof -
  have h: "klass (classified_item ''OTHER'' (Some (js ''a b'')) None None None None (Fin 0)) =
           klass (classified_item ''OTHER'' (Some (js ''a'')) (Some (js ''b '')) None None None (Fin 7)) \<and>
           blob_of (classified_item ''OTHER'' (Some (js ''a b'')) None None None None (Fin 0)) =
           blob_of (classified_item ''OTHER'' (Some (js ''a'')) (Some (js ''b '')) None None None (Fin 7)) \<and>
           url (classified_item ''OTHER'' (Some (js ''a b'')) None None None None (Fin 0)) =
           url (classified_item ''OTHER'' (Some (js ''a'')) (Some (js ''b '')) None None None (Fin 7)) \<and>
           marketCap (classified_item ''OTHER'' (Some (js ''a b'')) None None None None (Fin 0)) =
           marketCap (classified_item ''OTHER'' (Some (js ''a'')) (Some (js ''b '')) None None None (Fin 7)) \<and>
           symbols_count (classified_item ''OTHER'' (Some (js ''a b'')) None None None None (Fin 0)) =
           symbols_count (classified_item ''OTHER'' (Some (js ''a'')) (Some (js ''b '')) None None None (Fin 7))"
    by (simp add: classified_item_def blob_of_def symbols_count_def js_def)
  from score_function_of_item
         [of "classified_item ''OTHER'' (Some (js ''a b'')) None None None None (Fin 0)"
             "classified_item ''OTHER'' (Some (js ''a'')) (Some (js ''b '')) None None None (Fin 7)"
             quiet_runtime] h
  show ?thesis by blast
qed

text \<open>
  Claim C3 as stated, with the class and the text alone, fails. Three pairs of items,
  each pair with one class and one text: a market capitalization of 500 million raises
  the score from 0.2 to 0.34, a single symbol raises it to 0.23, and for an approval the
  URL of a wire host gives 0.74 where no URL gives 0.48.
\<close>

theorem score_same_class_and_text_counterexample:
  "klass (classified_item ''OTHER'' (Some (js ''a'')) None None None None (Fin 0)) =
   klass (classified_item ''OTHER'' (Some (js ''a'')) None None (Some (Fin 500000000)) None (Fin 0)) \<and>
   blob_of (classified_item ''OTHER'' (Some (js ''a'')) None None None None (Fin 0)) =
   blob_of (classified_item ''OTHER'' (Some (js ''a'')) None None (Some (Fin 500000000)) None (Fin 0)) \<and>
   score_value quiet_runtime
     (classified_item ''OTHER'' (Some (js ''a'')) None None None None (Fin 0)) = Fin 0.2 \<and>
   score_value quiet_runtime
     (classified_item ''OTHER'' (Some (js ''a'')) None None (Some (Fin 500000000)) None (Fin 0)) =
     Fin 0.34 \<and>
   score_value quiet_runtime
     (classified_item ''OTHER'' (Some (js ''a'')) None None None (Some [js ''X'']) (Fin 0)) =
     Fin 0.23 \<and>
   klass (classified_item ''FDA_MARKETING_AUTH'' (Some (js ''a'')) None None None None (Fin 10)) =
   klass (classified_item ''FDA_MARKETING_AUTH'' (Some (js ''a'')) None
            (Some (js ''https://www.prnewswire.com/a'')) None None (Fin 10)) \<and>
   blob_of (classified_item ''FDA_MARKETING_AUTH'' (Some (js ''a'')) None None None None (Fin 10)) =
   blob_of (classified_item ''FDA_MARKETING_AUTH'' (Some (js ''a'')) None
              (Some (js ''https://www.prnewswire.com/a'')) None None (Fin 10)) \<and>
   score_value quiet_runtime
     (classified_item ''FDA_MARKETING_AUTH'' (Some (js ''a'')) None None None None (Fin 10)) =
     Fin 0.48 \<and>
   score_value quiet_runtime
     (classified_item ''FDA_MARKETING_AUTH'' (Some (js ''a'')) None
        (Some (js ''https://www.prnewswire.com/a'')) None None (Fin 10)) = Fin 0.74"
  by (simp add: quiet_score_other quiet_score_fda blob_a quiet_wire_url quiet_no_url
                add_if_def Math_max_def Math_min_def js_gt_def)
     (simp add: classified_item_def)

end
